theory Spec2Isabelle
  imports Complex_Main
begin

section \<open>Chess Artist: a shallow embedding of chess-artist.py\<close>

text \<open>
  The script annotates PGN games and EPD position suites with the evaluations of a UCI
  engine. This theory embeds the decision logic of the class \<open>Analyze\<close>: the move
  classifiers, the mate-distance conversion, the complexity number, the engine handshake,
  the notation writer, the per-half-move orchestration of \<open>AnnotatePgn\<close> and the EPD
  test-suite aggregation of \<open>TestEngineWithEpd\<close>.

  Conventions of the embedding.
  \<^item> Python's unbounded \<open>int\<close> is \<open>int\<close>; a Python \<open>str\<close> is \<open>string\<close>.
  \<^item> A Python \<open>float\<close> is modelled by the \<open>real\<close> it denotes. Negation, \<open>abs\<close> and
    the comparisons of scores are exact on floats. The result of a float multiplication or
    division, and the conversion of an \<open>int\<close> to a float, is rounded to a float: the
    rounding is a function of the environment, of which nothing is assumed.
  \<^item> An exception is a value of the type \<open>error\<close>; a function that may raise returns a
    sum, \<open>Inl\<close> carrying the exception.
  \<^item> The side to move is a \<open>bool\<close> as in python-chess: \<open>True\<close> is White.
\<close>

subsection \<open>Exceptions and constants\<close>

datatype error =
  NameError | TypeError | ValueError | IndexError | KeyError | AssertionError
| ZeroDivisionError


definition BOOK_MOVE_LIMIT :: int where
  "BOOK_MOVE_LIMIT = 30"

definition WIN_SCORE :: real where
  "WIN_SCORE = 6.0"

subsection \<open>MoveClassifier: \<open>GetGoodNag\<close> and \<open>GetBadNag\<close>\<close>

text \<open>
  Both functions first convert the two scores to the point of view of the side to move
  (\<open>if not side: posScore = -1 * posScore; engScore = -1 * engScore\<close>), start from the
  default glyph \<open>$0\<close> and return a NAG string.
\<close>

definition GetGoodNag :: "bool \<Rightarrow> real \<Rightarrow> real \<Rightarrow> int \<Rightarrow> int \<Rightarrow> string" where
  "GetGoodNag side posScore0 engScore0 complexityNumber moveChanges =
     (let posScore = (if \<not> side then -1 * posScore0 else posScore0);
          engScore = (if \<not> side then -1 * engScore0 else engScore0)
      in if posScore > engScore \<and> moveChanges \<ge> 4 \<and> complexityNumber \<ge> 45 \<and>
            posScore \<ge> 0.75 \<and> posScore \<le> 3.0 then ''$3''
         else if moveChanges \<ge> 3 \<and> complexityNumber \<ge> 30 \<and>
            posScore \<ge> -0.15 \<and> posScore \<le> 3.0 then ''$1''
         else if moveChanges \<ge> 2 \<and> complexityNumber \<ge> 20 \<and>
            posScore \<ge> -0.15 \<and> posScore \<le> 3.0 then ''$5''
         else ''$0'')"

text \<open>
  In \<open>GetBadNag\<close> the \<open>if\<close>/\<open>elif\<close> chain assigns \<open>moveNag\<close>; a separate, final
  \<open>if posScore >= engScore\<close> then overwrites it.
\<close>

definition GetBadNag :: "bool \<Rightarrow> real \<Rightarrow> real \<Rightarrow> string" where
  "GetBadNag side posScore0 engScore0 =
     (let posScore = (if \<not> side then -1 * posScore0 else posScore0);
          engScore = (if \<not> side then -1 * engScore0 else engScore0);
          moveNag =
            (if posScore < -1.50 \<and> engScore \<ge> -1.50 then ''$4''
             else if posScore < -0.75 \<and> engScore \<ge> -0.75 then ''$2''
             else if posScore < -0.15 \<and> engScore \<ge> -0.15 then ''$6''
             else if engScore > 1.50 \<and> posScore \<le> 1.50 then ''$2''
             else ''$0'')
      in if posScore \<ge> engScore then ''$5'' else moveNag)"

text \<open>
  The specification's wording of the two classifiers, over glyph names. The glyph numbers
  are the ones the source's comments give: \<open>??\<close> is \<open>$4\<close>, \<open>?\<close> is \<open>$2\<close>, \<open>?!\<close> is
  \<open>$6\<close>, \<open>!!\<close> is \<open>$3\<close>, \<open>!\<close> is \<open>$1\<close>, \<open>!?\<close> is \<open>$5\<close>.
\<close>

datatype glyph = NoGlyph | Good | Mistake | VeryGood | Blunder | Interesting | Dubious

fun nag_text :: "glyph \<Rightarrow> string" where
  "nag_text NoGlyph = ''$0''"
| "nag_text Good = ''$1''"
| "nag_text Mistake = ''$2''"
| "nag_text VeryGood = ''$3''"
| "nag_text Blunder = ''$4''"
| "nag_text Interesting = ''$5''"
| "nag_text Dubious = ''$6''"

definition side_pov :: "bool \<Rightarrow> real \<Rightarrow> real" where
  "side_pov side score = (if side then score else - score)"

definition spec_BadNag_ladder :: "real \<Rightarrow> real \<Rightarrow> glyph" where
  "spec_BadNag_ladder posScore engScore =
     (if posScore < -1.50 \<and> -1.50 \<le> engScore then Blunder
      else if posScore < -0.75 \<and> -0.75 \<le> engScore then Mistake
      else if posScore < -0.15 \<and> -0.15 \<le> engScore then Dubious
      else if engScore > 1.50 \<and> posScore \<le> 1.50 then Mistake
      else NoGlyph)"

definition spec_BadNag :: "real \<Rightarrow> real \<Rightarrow> glyph" where
  "spec_BadNag posScore engScore =
     (if posScore \<ge> engScore then Interesting else spec_BadNag_ladder posScore engScore)"

definition spec_GoodNag :: "real \<Rightarrow> real \<Rightarrow> int \<Rightarrow> int \<Rightarrow> glyph" where
  "spec_GoodNag posScore engScore complexityNumber moveChanges =
     (if posScore > engScore \<and> moveChanges \<ge> 4 \<and> complexityNumber \<ge> 45 \<and>
         0.75 \<le> posScore \<and> posScore \<le> 3.0 then VeryGood
      else if moveChanges \<ge> 3 \<and> complexityNumber \<ge> 30 \<and>
         -0.15 \<le> posScore \<and> posScore \<le> 3.0 then Good
      else if moveChanges \<ge> 2 \<and> complexityNumber \<ge> 20 \<and>
         -0.15 \<le> posScore \<and> posScore \<le> 3.0 then Interesting
      else NoGlyph)"

subsection \<open>ScoreNormalizer: \<open>MateDistanceToValue\<close>\<close>


subsection \<open>ComplexityAnalyzer: \<open>GetComplexityNumber\<close>\<close>

text \<open>
  A sample of the saved trace is the two-element list \<open>[searchDepth, pvMove]\<close>, here a
  pair. The locals \<open>lastMove\<close> and \<open>lastDepth\<close> are assigned only at the end of the loop
  body, so they are options, \<open>None\<close> while unbound; reading an unbound local raises
  (\<open>UnboundLocalError\<close>, a \<open>NameError\<close>). The condition
  \<open>n[1] != lastMove and depth != lastDepth\<close> reads \<open>lastMove\<close> first and \<open>lastDepth\<close>
  only when the moves differ. The two assignments at the end of the body run for every
  sample, whatever its depth.
\<close>

fun GetComplexityNumber_loop ::
  "(int \<times> string) list \<Rightarrow> int \<Rightarrow> int \<Rightarrow> string option \<Rightarrow> int option \<Rightarrow> error + (int \<times> int)"
where
  "GetComplexityNumber_loop [] complexityNumber moveChanges lastMove lastDepth =
     Inr (complexityNumber, moveChanges)"
| "GetComplexityNumber_loop (n # rest) complexityNumber moveChanges lastMove lastDepth =
     (let depth = fst n in
      if depth \<ge> 10 then
        (case lastMove of
           None \<Rightarrow> Inl NameError
         | Some lm \<Rightarrow>
             if snd n \<noteq> lm then
               (case lastDepth of
                  None \<Rightarrow> Inl NameError
                | Some ld \<Rightarrow>
                    if depth \<noteq> ld
                    then GetComplexityNumber_loop rest (complexityNumber + fst n)
                           (moveChanges + 1) (Some (snd n)) (Some depth)
                    else GetComplexityNumber_loop rest complexityNumber moveChanges
                           (Some (snd n)) (Some depth))
             else GetComplexityNumber_loop rest complexityNumber moveChanges
                    (Some (snd n)) (Some depth))
      else GetComplexityNumber_loop rest complexityNumber moveChanges
             (Some (snd n)) (Some depth))"

definition GetComplexityNumber :: "(int \<times> string) list \<Rightarrow> error + (int \<times> int)" where
  "GetComplexityNumber savedMove = GetComplexityNumber_loop savedMove 0 0 None None"

text \<open>
  The specification's wording: samples below depth 10 are discarded first, then
  consecutive samples are scanned, and a sample counts when both its PV move and its depth
  differ from the previous sample.
\<close>

definition discard_shallow :: "(int \<times> string) list \<Rightarrow> (int \<times> string) list" where
  "discard_shallow savedMove = filter (\<lambda>n. fst n \<ge> 10) savedMove"

definition pv_changed :: "(int \<times> string) \<times> (int \<times> string) \<Rightarrow> bool" where
  "pv_changed pc = (snd (snd pc) \<noteq> snd (fst pc) \<and> fst (snd pc) \<noteq> fst (fst pc))"

definition scan_consecutive ::
  "((int \<times> string) \<times> (int \<times> string) \<Rightarrow> bool) \<Rightarrow> (int \<times> string) list \<Rightarrow> int \<times> int" where
  "scan_consecutive counts trace =
     (let hits = filter counts (zip trace (tl trace))
      in (sum_list (map (\<lambda>pc. fst (snd pc)) hits), int (length hits)))"

definition spec_ComplexityAnalyzer :: "(int \<times> string) list \<Rightarrow> int \<times> int" where
  "spec_ComplexityAnalyzer savedMove = scan_consecutive pv_changed (discard_shallow savedMove)"

text \<open>
  What the loop computes once \<open>lastMove\<close> and \<open>lastDepth\<close> are bound: a sample counts
  when its own depth is at least 10 and it differs in move and depth from the sample
  immediately before it in the unfiltered trace.
\<close>

definition deep_pv_changed :: "(int \<times> string) \<times> (int \<times> string) \<Rightarrow> bool" where
  "deep_pv_changed pc = (fst (snd pc) \<ge> 10 \<and> pv_changed pc)"

definition starts_shallow :: "(int \<times> string) list \<Rightarrow> bool" where
  "starts_shallow savedMove = (case savedMove of [] \<Rightarrow> True | n # rest \<Rightarrow> fst n < 10)"

subsection \<open>Python string operations used by the script\<close>



text \<open>
  \<open>str.strip()\<close> and \<open>str.split()\<close> without arguments work on the ASCII whitespace
  characters of a Python 2 byte string; \<open>sub in s\<close> is the substring test;
  \<open>sep.join(xs)\<close> concatenates with the separator between the elements.
\<close>

definition isspace :: "char \<Rightarrow> bool" where
  "isspace c =
     (c = CHR '' '' \<or> c = CHR 0x09 \<or> c = CHR 0x0A \<or> c = CHR 0x0B \<or> c = CHR 0x0C \<or> c = CHR 0x0D)"

definition py_strip :: "string \<Rightarrow> string" where
  "py_strip s = rev (dropWhile isspace (rev (dropWhile isspace s)))"

fun py_split_from :: "string \<Rightarrow> string \<Rightarrow> string list" where
  "py_split_from [] w = (if w = [] then [] else [w])"
| "py_split_from (c # cs) w =
     (if isspace c then (if w = [] then py_split_from cs [] else w # py_split_from cs [])
      else py_split_from cs (w @ [c]))"

definition py_split :: "string \<Rightarrow> string list" where
  "py_split s = py_split_from s []"

fun py_join :: "string \<Rightarrow> string list \<Rightarrow> string" where
  "py_join sep [] = []"
| "py_join sep [x] = x"
| "py_join sep (x # y # ys) = x @ sep @ py_join sep (y # ys)"

fun py_in :: "string \<Rightarrow> string \<Rightarrow> bool" where
  "py_in sub [] = (sub = [])"
| "py_in sub (c # cs) = (take (length sub) (c # cs) = sub \<or> py_in sub cs)"


subsection \<open>EngineSession: \<open>GetEngineIdName\<close>\<close>

text \<open>
  The engine's replies to \<open>uci\<close> are the lines \<open>readline\<close> returns; the empty string is
  the sentinel of \<open>iter(p.stdout.readline, '')\<close> and ends the loop as the end of the list
  does. The name starts as \<open>self.eng[0:-4]\<close>, the engine path without its last four
  characters (the empty string for a path of at most four characters); every line that
  contains \<open>'id name '\<close> replaces it by the line's words from the third on; the loop ends
  at the first line that contains \<open>uciok\<close>.
\<close>

fun GetEngineIdName_loop :: "string list \<Rightarrow> string \<Rightarrow> string" where
  "GetEngineIdName_loop [] engineIdName = engineIdName"
| "GetEngineIdName_loop (eline # rest) engineIdName =
     (if eline = [] then engineIdName
      else
        (let line = py_strip eline;
             engineIdName' =
               (if py_in ''id name '' line then py_join '' '' (drop 2 (py_split line))
                else engineIdName)
         in if py_in ''uciok'' line then engineIdName'
            else GetEngineIdName_loop rest engineIdName'))"

definition GetEngineIdName :: "string \<Rightarrow> string list \<Rightarrow> string" where
  "GetEngineIdName eng replies = GetEngineIdName_loop replies (take (length eng - 4) eng)"

text \<open>The handshake shows no \<open>id name\<close> line up to and including the \<open>uciok\<close> line.\<close>

fun no_id_name_line :: "string list \<Rightarrow> bool" where
  "no_id_name_line [] = True"
| "no_id_name_line (eline # rest) =
     (if eline = [] then True
      else if py_in ''id name '' (py_strip eline) then False
      else if py_in ''uciok'' (py_strip eline) then True
      else no_id_name_line rest)"

text \<open>
  The specification's wording of the fallback, "filename minus extension": the extension
  of a path is the part of its last component from the last dot on, when that dot is not
  the component's first character, and is empty otherwise.
\<close>

definition path_separator :: "char \<Rightarrow> bool" where
  "path_separator c = (c = CHR ''/'' \<or> c = CHR 0x5C)"

definition path_extension :: "string \<Rightarrow> string" where
  "path_extension path =
     (let name = rev (takeWhile (\<lambda>c. \<not> path_separator c) (rev path));
          ext = rev (takeWhile (\<lambda>c. c \<noteq> CHR ''.'') (rev name))
      in if length ext + 1 < length name then CHR ''.'' # ext else [])"

definition spec_minus_extension :: "string \<Rightarrow> string" where
  "spec_minus_extension path = take (length path - length (path_extension path)) path"

subsection \<open>The object, the output file and the environment\<close>

text \<open>
  Text written to the output file is a list of pieces: literal text, with \<open>%d\<close> and
  \<open>%s\<close> fields already rendered, and the two float fields \<open>%0.1f\<close> and \<open>%+0.2f\<close>,
  which keep the number they print.
\<close>

datatype piece = Text string | Float1 real | Float2 real

fun show_nat :: "nat \<Rightarrow> string" where
  "show_nat n =
     (if n < 10 then [char_of (48 + n)]
      else show_nat (n div 10) @ [char_of (48 + n mod 10)])"

declare show_nat.simps [simp del]

definition show_int :: "int \<Rightarrow> string" where
  "show_int i = (if i < 0 then CHR ''-'' # show_nat (nat (- i)) else show_nat (nat i))"

text \<open>The number a string of decimal digits denotes.\<close>

definition decimal_value :: "string \<Rightarrow> nat" where
  "decimal_value ds = foldl (\<lambda>a c. 10 * a + (of_char c - 48)) 0 ds"

text \<open>
  An engine session of one of the request kinds; the list of the sessions run so far is
  kept beside the object to tell which engine work a step has done.
\<close>

datatype session =
  BookProbe string
| StaticEval string
| SearchAfterMove string bool
| SearchBeforeMove string bool

text \<open>
  The attributes of an \<open>Analyze\<close> object as \<open>__init__\<close> sets them, with the text
  appended to the file \<open>outfn\<close> and the engine sessions run.
\<close>

record analyze =
  infn :: string
  outfn :: string
  eng :: string
  bookOpt :: string
  evalOpt :: string
  moveTimeOpt :: int
  engHashOpt :: int
  engThreadsOpt :: int
  moveStartOpt :: int
  jobOpt :: string
  writeCnt :: int
  engIdName :: string
  outfile :: "piece list"
  sessions :: "session list"

definition fwrite :: "analyze \<Rightarrow> piece list \<Rightarrow> analyze" where
  "fwrite self ps = self\<lparr>outfile := outfile self @ ps\<rparr>"

definition run_session :: "analyze \<Rightarrow> session \<Rightarrow> analyze" where
  "run_session self s = self\<lparr>sessions := sessions self @ [s]\<rparr>"

text \<open>
  The engine process and the python-chess board are the environment: each method that
  runs one engine session on a position is a function from its arguments to what it
  returns or raises, and so is the test \<open>is_checkmate() or is_stalemate()\<close> on the board
  built from a FEN string (\<open>chess.Board(fen)\<close> raises on a malformed FEN). The last
  field is the rounding of a real number to a binary float.
\<close>

record environment =
  GetCerebellumBookMove :: "string \<Rightarrow> error + string option"
  GetStaticEvalAfterMove :: "string \<Rightarrow> error + real"
  GetSearchScoreAfterMove :: "string \<Rightarrow> bool \<Rightarrow> error + (real \<times> int \<times> int)"
  GetSearchScoreBeforeMove :: "string \<Rightarrow> bool \<Rightarrow> error + (string \<times> real)"
  GetEpdEngineSearchScore :: "string \<Rightarrow> error + (int \<times> int \<times> string \<times> int)"
  board_has_no_legal_move :: "string \<Rightarrow> error + bool"
  float_round :: "real \<Rightarrow> real"

text \<open>
  \<open>float(n)\<close> as the arithmetic applies it to an \<open>int\<close> operand, and the product and
  the quotient of two floats; the quotient raises on a zero divisor.
\<close>

definition py_float :: "environment \<Rightarrow> int \<Rightarrow> real" where
  "py_float env n = float_round env (real_of_int n)"



type_synonym 'a result = "(error \<times> analyze) + 'a"

subsection \<open>AnalysisOrchestrator: \<open>TestEngineWithEpd\<close>\<close>


























subsection \<open>AnnotationWriter\<close>

text \<open>
  Every writer opens the file for appending and adds one to \<open>writeCnt\<close> before it
  writes. The line wrap (\<open>if self.writeCnt >= limit: self.writeCnt = 0; f.write('\n')\<close>)
  stands in the branch of Black's move only.
\<close>

definition count_write :: "analyze \<Rightarrow> analyze" where
  "count_write self = self\<lparr>writeCnt := writeCnt self + 1\<rparr>"

definition wrap_line :: "int \<Rightarrow> analyze \<Rightarrow> analyze" where
  "wrap_line limit self =
     (if writeCnt self \<ge> limit then fwrite (self\<lparr>writeCnt := 0\<rparr>) [Text ''\<newline>'']
      else self)"

text \<open>\<open>self.engIdName.split()[0]\<close> raises when the name has no word.\<close>

definition engShortName :: "analyze \<Rightarrow> error + string" where
  "engShortName self =
     (case py_split (engIdName self) of [] \<Rightarrow> Inl IndexError | w # ws \<Rightarrow> Inr w)"

definition WriteSanMove :: "analyze \<Rightarrow> bool \<Rightarrow> int \<Rightarrow> string \<Rightarrow> analyze" where
  "WriteSanMove self side moveNumber sanMove =
     (let s = count_write self
      in if side then fwrite s [Text (show_int moveNumber @ ''. '' @ sanMove @ '' '')]
         else wrap_line 4 (fwrite s [Text (sanMove @ '' '')]))"

definition WritePosScore :: "analyze \<Rightarrow> bool \<Rightarrow> int \<Rightarrow> string \<Rightarrow> real \<Rightarrow> analyze" where
  "WritePosScore self side moveNumber sanMove posScore =
     (let s = count_write self
      in if side
         then fwrite s [Text (show_int moveNumber @ ''. '' @ sanMove @ '' {''),
                        Float2 posScore, Text ''} '']
         else wrap_line 4 (fwrite s [Text (sanMove @ '' {''), Float2 posScore, Text ''} '']))"

definition WritePosScoreEngMove ::
  "analyze \<Rightarrow> bool \<Rightarrow> int \<Rightarrow> string \<Rightarrow> real \<Rightarrow> string \<Rightarrow> real \<Rightarrow> int \<Rightarrow> int \<Rightarrow> analyze result"
where
  "WritePosScoreEngMove self side moveNumber sanMove posScore engMove engScore
       complexityNumber moveChanges =
     (case engShortName self of
        Inl e \<Rightarrow> Inl (e, self)
      | Inr short \<Rightarrow>
          (let s = count_write self; n = show_int moveNumber
           in if side then
                (if sanMove \<noteq> engMove
                 then Inr (fwrite s
                   [Text (n @ ''. '' @ sanMove @ '' '' @ GetBadNag side posScore engScore @ '' {''),
                    Float2 posScore, Text (''} ('' @ n @ ''. '' @ engMove @ '' {''),
                    Float2 engScore, Text ('' - '' @ short @ ''}) '')])
                 else Inr (fwrite s
                   [Text (n @ ''. '' @ sanMove @ '' ''
                          @ GetGoodNag side posScore engScore complexityNumber moveChanges
                          @ '' {''),
                    Float2 posScore, Text ''} '']))
              else
                Inr (wrap_line 2
                  (if sanMove \<noteq> engMove
                   then fwrite s
                     [Text (n @ ''... '' @ sanMove @ '' '' @ GetBadNag side posScore engScore
                            @ '' {''),
                      Float2 posScore, Text (''} ('' @ n @ ''... '' @ engMove @ '' {''),
                      Float2 engScore, Text ('' - '' @ short @ ''}) '')]
                   else fwrite s
                     [Text (sanMove @ '' ''
                            @ GetGoodNag side posScore engScore complexityNumber moveChanges
                            @ '' {''),
                      Float2 posScore, Text ''} '']))))"

definition WriteBookMove :: "analyze \<Rightarrow> bool \<Rightarrow> int \<Rightarrow> string \<Rightarrow> string \<Rightarrow> analyze" where
  "WriteBookMove self side moveNumber sanMove bookMove =
     (let s = count_write self; n = show_int moveNumber
      in if side
         then fwrite s [Text (n @ ''. '' @ sanMove @ '' ('' @ n @ ''. '' @ bookMove
                              @ '' {cerebellum}) '')]
         else wrap_line 2
                (fwrite s [Text (n @ ''... '' @ sanMove @ '' ('' @ n @ ''... '' @ bookMove
                                 @ '' {cerebellum}) '')]))"

definition WritePosScoreBookMove ::
  "analyze \<Rightarrow> bool \<Rightarrow> int \<Rightarrow> string \<Rightarrow> string \<Rightarrow> real \<Rightarrow> analyze" where
  "WritePosScoreBookMove self side moveNumber sanMove bookMove posScore =
     (let s = count_write self; n = show_int moveNumber
      in if side
         then fwrite s [Text (n @ ''. '' @ sanMove @ '' {''), Float2 posScore,
                        Text (''} ('' @ n @ ''. '' @ bookMove @ '' {cerebellum}) '')]
         else wrap_line 2
                (fwrite s [Text (n @ ''... '' @ sanMove @ '' {''), Float2 posScore,
                           Text (''} ('' @ n @ ''... '' @ bookMove @ '' {cerebellum}) '')]))"

definition WritePosScoreBookMoveEngMove ::
  "analyze \<Rightarrow> bool \<Rightarrow> int \<Rightarrow> string \<Rightarrow> string \<Rightarrow> real \<Rightarrow> string \<Rightarrow> real \<Rightarrow> analyze result"
where
  "WritePosScoreBookMoveEngMove self side moveNumber sanMove bookMove posScore engMove engScore =
     (case engShortName self of
        Inl e \<Rightarrow> Inl (e, self)
      | Inr short \<Rightarrow>
          (let s = count_write self; n = show_int moveNumber
           in if side then
                (if sanMove \<noteq> engMove
                 then Inr (fwrite s
                   [Text (n @ ''. '' @ sanMove @ '' '' @ GetBadNag side posScore engScore @ '' {''),
                    Float2 posScore,
                    Text (''} ('' @ n @ ''. '' @ bookMove @ '' {cerebellum}) (''
                          @ n @ ''. '' @ engMove @ '' {''),
                    Float2 engScore, Text ('' - '' @ short @ ''}) '')])
                 else Inr (fwrite s
                   [Text (n @ ''. '' @ sanMove @ '' {''), Float2 posScore,
                    Text (''} ('' @ n @ ''. '' @ bookMove @ '' {cerebellum}) '')]))
              else
                Inr (wrap_line 2
                  (if sanMove \<noteq> engMove
                   then fwrite s
                     [Text (n @ ''... '' @ sanMove @ '' '' @ GetBadNag side posScore engScore
                            @ '' {''),
                      Float2 posScore,
                      Text (''} ('' @ n @ ''... '' @ bookMove @ '' {cerebellum}) (''
                            @ n @ ''... '' @ engMove @ '' {''),
                      Float2 engScore, Text ('' - '' @ short @ ''}) '')]
                   else fwrite s
                     [Text (n @ ''... '' @ sanMove @ '' {''), Float2 posScore,
                      Text (''} ('' @ n @ ''... '' @ bookMove @ '' {cerebellum}) '')]))))"

text \<open>
  \<open>WriteBookMoveEngMove\<close> has no parameter \<open>posScore\<close>, yet its last format, for Black
  when the played move is the engine's, names it: building the arguments raises
  \<open>NameError\<close> after \<open>writeCnt\<close> was counted and before anything is written.
\<close>

definition WriteBookMoveEngMove ::
  "analyze \<Rightarrow> bool \<Rightarrow> int \<Rightarrow> string \<Rightarrow> string \<Rightarrow> string \<Rightarrow> real \<Rightarrow> analyze result" where
  "WriteBookMoveEngMove self side moveNumber sanMove bookMove engMove engScore =
     (case engShortName self of
        Inl e \<Rightarrow> Inl (e, self)
      | Inr short \<Rightarrow>
          (let s = count_write self; n = show_int moveNumber
           in if side then
                (if sanMove \<noteq> engMove
                 then Inr (fwrite s
                   [Text (n @ ''. '' @ sanMove @ '' ('' @ n @ ''. '' @ bookMove
                          @ '' {cerebellum}) ('' @ n @ ''. '' @ engMove @ '' {''),
                    Float2 engScore, Text ('' - '' @ short @ ''}) '')])
                 else Inr (fwrite s
                   [Text (n @ ''. '' @ sanMove @ '' ('' @ n @ ''. '' @ bookMove
                          @ '' {cerebellum}) '')]))
              else
                (if sanMove \<noteq> engMove
                 then Inr (wrap_line 2 (fwrite s
                   [Text (n @ ''... '' @ sanMove @ '' ('' @ n @ ''... '' @ bookMove
                          @ '' {cerebellum}) ('' @ n @ ''... '' @ engMove @ '' {''),
                    Float2 engScore, Text ('' - '' @ short @ ''}) '')]))
                 else Inl (NameError, s))))"

text \<open>
  \<open>WriteNotation\<close>. The engine's move and score are both \<open>None\<close> or both set at every
  call, so they are one optional pair. Case (7) calls \<open>WriteEngMove\<close> with five
  arguments where the method takes six, and the call raises \<open>TypeError\<close>.
\<close>

definition WriteNotation ::
  "analyze \<Rightarrow> bool \<Rightarrow> int \<Rightarrow> string \<Rightarrow> string option \<Rightarrow> real option \<Rightarrow> bool \<Rightarrow>
   (string \<times> real) option \<Rightarrow> int \<Rightarrow> int \<Rightarrow> analyze result" where
  "WriteNotation self side fmvn sanMove bookMove posScore isGameOver engine
       complexityNumber moveChanges =
     (if isGameOver then Inr (WriteSanMove self side fmvn sanMove)
      else
        (case (posScore, bookMove, engine) of
           (Some p, None, None) \<Rightarrow> Inr (WritePosScore self side fmvn sanMove p)
         | (Some p, Some b, None) \<Rightarrow> Inr (WritePosScoreBookMove self side fmvn sanMove b p)
         | (Some p, None, Some (engMove, engScore)) \<Rightarrow>
             WritePosScoreEngMove self side fmvn sanMove p engMove engScore
               complexityNumber moveChanges
         | (Some p, Some b, Some (engMove, engScore)) \<Rightarrow>
             WritePosScoreBookMoveEngMove self side fmvn sanMove b p engMove engScore
         | (None, Some b, None) \<Rightarrow> Inr (WriteBookMove self side fmvn sanMove b)
         | (None, Some b, Some (engMove, engScore)) \<Rightarrow>
             WriteBookMoveEngMove self side fmvn sanMove b engMove engScore
         | (None, None, Some (engMove, engScore)) \<Rightarrow> Inl (TypeError, self)
         | (None, None, None) \<Rightarrow> Inr (WriteSanMove self side fmvn sanMove)))"

subsection \<open>AnalysisOrchestrator: \<open>AnnotatePgn\<close>\<close>

text \<open>
  What python-chess supplies for one half-move of the main line: the side to move and
  the full-move number of the position before the move, the move in SAN, the FEN before
  and after the move, and whether the position after the move is checkmate or stalemate.
\<close>

record halfmove =
  hm_side :: bool
  hm_fmvn :: int
  hm_sanMove :: string
  hm_fenBefore :: string
  hm_fenAfter :: string
  hm_isGameOver :: bool

text \<open>
  Step (1) of the loop body: the book is probed on the position before the move when the
  book option is \<open>cerebellum\<close> and the book has not been given up; a probe without a
  move beyond \<open>BOOK_MOVE_LIMIT\<close> gives the book up for the rest of the game.
\<close>

definition probe_book ::
  "environment \<Rightarrow> analyze \<Rightarrow> bool \<Rightarrow> halfmove \<Rightarrow> (string option \<times> analyze \<times> bool) result" where
  "probe_book env self isCereEnd hm =
     (if bookOpt self = ''cerebellum'' \<and> \<not> isCereEnd then
        (let s = run_session self (BookProbe (hm_fenBefore hm))
         in case GetCerebellumBookMove env (hm_fenBefore hm) of
              Inl e \<Rightarrow> Inl (e, s)
            | Inr cereBookMove \<Rightarrow>
                Inr (cereBookMove, s,
                     if cereBookMove = None \<and> hm_fmvn hm > BOOK_MOVE_LIMIT then True
                     else isCereEnd))
      else Inr (None, self, isCereEnd))"

text \<open>
  Step (3): \<open>posScore\<close> starts as \<open>None\<close> and is set by the static evaluation or by the
  search after the move; any other eval option leaves it \<open>None\<close>. The complexity number
  and the move changes stay 0 unless the search sets them.
\<close>

definition get_posScore ::
  "environment \<Rightarrow> analyze \<Rightarrow> halfmove \<Rightarrow> (real option \<times> int \<times> int \<times> analyze) result" where
  "get_posScore env self hm =
     (if evalOpt self = ''static'' then
        (let s = run_session self (StaticEval (hm_fenAfter hm))
         in case GetStaticEvalAfterMove env (hm_fenAfter hm) of
              Inl e \<Rightarrow> Inl (e, s)
            | Inr staticScore \<Rightarrow> Inr (Some staticScore, 0, 0, s))
      else if evalOpt self = ''search'' then
        (let s = run_session self (SearchAfterMove (hm_fenAfter hm) (hm_side hm))
         in case GetSearchScoreAfterMove env (hm_fenAfter hm) (hm_side hm) of
              Inl e \<Rightarrow> Inl (e, s)
            | Inr (searchScore, complexityNumber, moveChanges) \<Rightarrow>
                Inr (Some searchScore, complexityNumber, moveChanges, s))
      else Inr (None, 0, 0, self))"

text \<open>
  Step (4): \<open>if abs(posScore) <= WIN_SCORE and self.jobOpt == 'analyze'\<close>. The call
  \<open>abs(None)\<close> raises \<open>TypeError\<close>.
\<close>

definition get_engine_best ::
  "environment \<Rightarrow> analyze \<Rightarrow> halfmove \<Rightarrow> real option \<Rightarrow> ((string \<times> real) option \<times> analyze) result"
where
  "get_engine_best env self hm posScore =
     (case posScore of
        None \<Rightarrow> Inl (TypeError, self)
      | Some p \<Rightarrow>
          if \<bar>p\<bar> \<le> WIN_SCORE \<and> jobOpt self = ''analyze'' then
            (let s = run_session self (SearchBeforeMove (hm_fenBefore hm) (hm_side hm))
             in case GetSearchScoreBeforeMove env (hm_fenBefore hm) (hm_side hm) of
                  Inl e \<Rightarrow> Inl (e, s)
                | Inr (engBestMove, engBestScore) \<Rightarrow> Inr (Some (engBestMove, engBestScore), s))
          else Inr (None, self))"

text \<open>
  The body of the loop over the moves of a game, steps (0) to (6); it returns the object
  and the flag \<open>isCereEnd\<close>.
\<close>

definition AnnotateHalfMove ::
  "environment \<Rightarrow> analyze \<Rightarrow> bool \<Rightarrow> halfmove \<Rightarrow> (analyze \<times> bool) result" where
  "AnnotateHalfMove env self isCereEnd hm =
     (let side = hm_side hm; fmvn = hm_fmvn hm; sanMove = hm_sanMove hm
      in if fmvn < moveStartOpt self \<and> bookOpt self \<noteq> ''cerebellum'' then
           (case WriteNotation self side fmvn sanMove None None False None 0 0 of
              Inl e \<Rightarrow> Inl e
            | Inr s \<Rightarrow> Inr (s, isCereEnd))
         else
           (case probe_book env self isCereEnd hm of
              Inl e \<Rightarrow> Inl e
            | Inr (cereBookMove, s1, isCereEnd1) \<Rightarrow>
                if fmvn < moveStartOpt s1 \<and> cereBookMove \<noteq> None then
                  (case WriteNotation s1 side fmvn sanMove cereBookMove None False None 0 0 of
                     Inl e \<Rightarrow> Inl e
                   | Inr s \<Rightarrow> Inr (s, isCereEnd1))
                else
                  (case get_posScore env s1 hm of
                     Inl e \<Rightarrow> Inl e
                   | Inr (posScore, complexityNumber, moveChanges, s2) \<Rightarrow>
                       (case get_engine_best env s2 hm posScore of
                          Inl e \<Rightarrow> Inl e
                        | Inr (engine, s3) \<Rightarrow>
                            (case WriteNotation s3 side fmvn sanMove cereBookMove posScore
                                    (hm_isGameOver hm) engine complexityNumber moveChanges of
                               Inl e \<Rightarrow> Inl e
                             | Inr s \<Rightarrow> Inr (s, isCereEnd1))))))"

fun AnnotateMoves ::
  "environment \<Rightarrow> analyze \<Rightarrow> bool \<Rightarrow> halfmove list \<Rightarrow> analyze result" where
  "AnnotateMoves env self isCereEnd [] = Inr self"
| "AnnotateMoves env self isCereEnd (hm # rest) =
     (case AnnotateHalfMove env self isCereEnd hm of
        Inl e \<Rightarrow> Inl e
      | Inr (s, isCereEnd1) \<Rightarrow> AnnotateMoves env s isCereEnd1 rest)"

text \<open>
  A game as read by python-chess: its header tags in order and the half-moves of its
  main line. For each game the tags, the annotator tag and a comment on the evaluation
  mode are written, then the moves, then the result.
\<close>

record game =
  headers :: "(string \<times> string) list"
  mainline :: "halfmove list"

definition AnnotateGame :: "environment \<Rightarrow> analyze \<Rightarrow> game \<Rightarrow> analyze result" where
  "AnnotateGame env self g =
     (let s0 = self\<lparr>writeCnt := 0\<rparr>;
          s1 = fwrite s0
                 (map (\<lambda>kv. Text (''['' @ fst kv @ '' '' @ [CHR 0x22] @ snd kv @ [CHR 0x22]
                                   @ '']\<newline>''))
                      (headers g));
          s2 = fwrite s1
                 [Text (''[Annotator '' @ [CHR 0x22] @ engIdName self @ [CHR 0x22]
                        @ '']\<newline>\<newline>'')];
          s3 = (if evalOpt self = ''static''
                then fwrite s2 [Text ''{Move comments are from engine static evaluation.}\<newline>'']
                else if evalOpt self = ''search''
                then fwrite s2
                       [Text (''{Hash '' @ show_int (engHashOpt self) @ ''mb, Threads ''
                              @ show_int (engThreadsOpt self) @ '', @ ''),
                        Float1 (float_round env (py_float env (moveTimeOpt self) / 1000.0)),
                        Text ''s/pos}\<newline>'']
                else s2)
      in case map_of (headers g) ''Result'' of
           None \<Rightarrow> Inl (KeyError, s3)
         | Some res \<Rightarrow>
             (case AnnotateMoves env s3 False (mainline g) of
                Inl e \<Rightarrow> Inl e
              | Inr s4 \<Rightarrow> Inr (fwrite s4 [Text (res @ ''\<newline>\<newline>'')])))"

fun AnnotateGames :: "environment \<Rightarrow> analyze \<Rightarrow> game list \<Rightarrow> analyze result" where
  "AnnotateGames env self [] = Inr self"
| "AnnotateGames env self (g # gs) =
     (case AnnotateGame env self g of
        Inl e \<Rightarrow> Inl e
      | Inr s \<Rightarrow> AnnotateGames env s gs)"

text \<open>\<open>AnnotatePgn\<close> first disables the book when the engine is not Brainfish.\<close>

definition AnnotatePgn :: "environment \<Rightarrow> analyze \<Rightarrow> game list \<Rightarrow> analyze result" where
  "AnnotatePgn env self games =
     (let s = (if bookOpt self = ''cerebellum'' \<and> \<not> py_in ''Brainfish'' (engIdName self)
               then self\<lparr>bookOpt := ''none''\<rparr> else self)
      in AnnotateGames env s games)"

text \<open>The object as a step leaves it, whether the step returns or raises.\<close>

definition write_state :: "analyze result \<Rightarrow> analyze" where
  "write_state r = (case r of Inl (e, s) \<Rightarrow> s | Inr s \<Rightarrow> s)"

definition result_state :: "(analyze \<times> bool) result \<Rightarrow> analyze" where
  "result_state r = (case r of Inl (e, s) \<Rightarrow> s | Inr (s, b) \<Rightarrow> s)"

subsection \<open>Startup: the option checks of \<open>main\<close>\<close>

text \<open>
  The checks of \<open>main\<close> between \<open>CheckFiles\<close> and the construction of the object, with
  the presence of the book file and the type of the input file as arguments. The result
  is \<open>None\<close> where \<open>main\<close> exits, and otherwise the book option it goes on with.
\<close>

datatype filetype = EPD_FILE | PGN_FILE

definition main_checks ::
  "string \<Rightarrow> string \<Rightarrow> string \<Rightarrow> int \<Rightarrow> bool \<Rightarrow> filetype \<Rightarrow> string option" where
  "main_checks bookOption0 evalOption jobOption moveTimeOption cereBookIsFile fileType =
     (let bookOption = (if bookOption0 = ''cerebellum'' \<and> \<not> cereBookIsFile then ''none''
                        else bookOption0)
      in if bookOption = ''none'' \<and> evalOption = ''none'' \<and> fileType = PGN_FILE then None
         else if fileType = EPD_FILE \<and> moveTimeOption \<le> 0 then None
         else if fileType = EPD_FILE \<and> evalOption = ''none'' \<and> jobOption \<noteq> ''test'' then None
         else if fileType = PGN_FILE \<and> jobOption \<noteq> ''analyze'' then None
         else Some bookOption)"

subsection \<open>Example runs\<close>

text \<open>
  A stub environment for concrete runs: the book has no move, the static evaluation is
  \<open>0.25\<close>, the search after a move reports \<open>0.25\<close> with no PV change, the search before
  a move recommends \<open>e4\<close> at \<open>0.30\<close>, the EPD search reports depth 20, best move \<open>e5\<close>
  and 30 centipawns, and the only position without a legal move is the one after
  fool's mate. Its rounding changes nothing: the numbers the example runs compute
  (\<open>2000/1000\<close>, \<open>100*1\<close>, \<open>100/2\<close>) are binary floats.
\<close>

definition stub_environment :: environment where
  "stub_environment =
     \<lparr>GetCerebellumBookMove = (\<lambda>fen. Inr None),
      GetStaticEvalAfterMove = (\<lambda>fen. Inr 0.25),
      GetSearchScoreAfterMove = (\<lambda>fen side. Inr (0.25, 0, 0)),
      GetSearchScoreBeforeMove = (\<lambda>fen side. Inr (''e4'', 0.30)),
      GetEpdEngineSearchScore = (\<lambda>fen. Inr (20, 2, ''e5'', 30)),
      board_has_no_legal_move =
        (\<lambda>fen. Inr (fen = ''rnb1kbnr/pppp1ppp/8/4p3/6Pq/5P2/PPPPP2P/RNBQKBNR w KQkq - 0 1'')),
      float_round = (\<lambda>x. x)\<rparr>"

definition example_analyze :: analyze where
  "example_analyze =
     \<lparr>infn = ''suite.epd'', outfn = ''out.txt'', eng = ''Brainfish.exe'',
      bookOpt = ''cerebellum'', evalOpt = ''static'', moveTimeOpt = 2000, engHashOpt = 32,
      engThreadsOpt = 1, moveStartOpt = 8, jobOpt = ''analyze'', writeCnt = 0,
      engIdName = ''Brainfish 091016 64'', outfile = [], sessions = []\<rparr>"


definition example_halfmove :: halfmove where
  "example_halfmove =
     \<lparr>hm_side = True, hm_fmvn = 1, hm_sanMove = ''e4'',
      hm_fenBefore = ''rnbqkbnr/pppppppp/8/8/8/8/PPPPPPPP/RNBQKBNR w KQkq - 0 1'',
      hm_fenAfter = ''rnbqkbnr/pppppppp/8/8/4P3/8/PPPP1PPP/RNBQKBNR b KQkq - 0 1'',
      hm_isGameOver = False\<rparr>"

text \<open>An environment whose book knows the move \<open>d4\<close>, and a game of one move.\<close>

definition book_environment :: environment where
  "book_environment = stub_environment\<lparr>GetCerebellumBookMove := (\<lambda>fen. Inr (Some ''d4''))\<rparr>"

definition example_game :: game where
  "example_game = \<lparr>headers = [(''Event'', ''?''), (''Result'', ''*'')],
                    mainline = [example_halfmove]\<rparr>"


section \<open>Theorems\<close>

subsection \<open>MoveClassifier\<close>

text \<open>
  C1. \<open>GetBadNag\<close> is the specification's ladder on the side-POV scores (negated for
  Black) with the final override: the result is Interesting whenever
  \<open>posScore \<ge> engScore\<close>, and otherwise Blunder, Mistake, Dubious, Mistake or no glyph by
  the four rungs in order. With side White and both scores \<open>-2.0\<close> the result is \<open>$5\<close>.
\<close>

theorem GetBadNag_ladder:
  "GetBadNag side posScore engScore =
     nag_text (spec_BadNag (side_pov side posScore) (side_pov side engScore))
   \<and> GetBadNag True (-2.0) (-2.0) = ''$5''"
proof (intro conjI)
  show "GetBadNag side posScore engScore =
     nag_text (spec_BadNag (side_pov side posScore) (side_pov side engScore))"
    unfolding GetBadNag_def spec_BadNag_def spec_BadNag_ladder_def side_pov_def Let_def
    by (cases side) auto
  show "GetBadNag True (-2.0) (-2.0) = ''$5''"
    by (simp add: GetBadNag_def)
qed

theorem GetBadNag_ladder_witness:
  "GetBadNag False 2.0 1.0 = nag_text Blunder
   \<and> GetBadNag True (-1.0) 0 = nag_text Mistake
   \<and> GetBadNag True (-0.5) 0 = nag_text Dubious
   \<and> GetBadNag True 1.0 2.0 = nag_text Mistake
   \<and> GetBadNag True (-2.0) (-2.0) = ''$5''"
  using GetBadNag_ladder [of False "2.0" "1.0"] GetBadNag_ladder [of True "-1.0" 0]
    GetBadNag_ladder [of True "-0.5" 0] GetBadNag_ladder [of True "1.0" "2.0"]
  by (simp add: spec_BadNag_def spec_BadNag_ladder_def side_pov_def)

text \<open>
  C2. \<open>GetGoodNag\<close> is the specification's threshold ladder on the side-POV scores:
  VeryGood, else Good, else Interesting, else no glyph (\<open>$0\<close>). With side White,
  four move changes, complexity 45, \<open>posScore = 1.0\<close> and \<open>engScore = 0.5\<close> the result
  is VeryGood; with complexity 44 it is Good.
\<close>

theorem GetGoodNag_ladder:
  "GetGoodNag side posScore engScore complexityNumber moveChanges =
     nag_text (spec_GoodNag (side_pov side posScore) (side_pov side engScore)
       complexityNumber moveChanges)
   \<and> GetGoodNag True 1.0 0.5 45 4 = nag_text VeryGood
   \<and> GetGoodNag True 1.0 0.5 44 4 = nag_text Good"
proof (intro conjI)
  show "GetGoodNag side posScore engScore complexityNumber moveChanges =
     nag_text (spec_GoodNag (side_pov side posScore) (side_pov side engScore)
       complexityNumber moveChanges)"
    unfolding GetGoodNag_def spec_GoodNag_def side_pov_def Let_def
    by (cases side) auto
  show "GetGoodNag True 1.0 0.5 45 4 = nag_text VeryGood"
    by (simp add: GetGoodNag_def)
  show "GetGoodNag True 1.0 0.5 44 4 = nag_text Good"
    by (simp add: GetGoodNag_def)
qed

theorem GetGoodNag_ladder_witness:
  "GetGoodNag False (-1.0) (-0.5) 45 4 = ''$3''
   \<and> GetGoodNag True 0 0 20 2 = ''$5''
   \<and> GetGoodNag True 3.5 0 50 5 = ''$0''"
  using GetGoodNag_ladder [of False "-1.0" "-0.5" 45 4] GetGoodNag_ladder [of True 0 0 20 2]
    GetGoodNag_ladder [of True "3.5" 0 50 5]
  by (simp add: spec_GoodNag_def side_pov_def)

subsection \<open>ScoreNormalizer\<close>



subsection \<open>ComplexityAnalyzer\<close>

lemma scan_consecutive_Cons2:
  "scan_consecutive P (p # n # rest) =
     (if P (p, n)
      then (fst n + fst (scan_consecutive P (n # rest)), 1 + snd (scan_consecutive P (n # rest)))
      else scan_consecutive P (n # rest))"
  by (simp add: scan_consecutive_def Let_def)

lemma scan_consecutive_single: "scan_consecutive P [p] = (0, 0)"
  by (simp add: scan_consecutive_def)

lemma deep_pv_changed_pair:
  "deep_pv_changed ((d, m), (d', m')) = (d' \<ge> 10 \<and> m' \<noteq> m \<and> d' \<noteq> d)"
  by (simp add: deep_pv_changed_def pv_changed_def)

text \<open>
  Once both locals are bound the loop cannot raise, and it adds to the two counters what
  a scan of the adjacent pairs of the remaining trace, led by the last sample, finds.
\<close>

lemma GetComplexityNumber_loop_bound:
  "GetComplexityNumber_loop xs cn mc (Some m) (Some d) =
     Inr (cn + fst (scan_consecutive deep_pv_changed ((d, m) # xs)),
          mc + snd (scan_consecutive deep_pv_changed ((d, m) # xs)))"
proof (induction xs arbitrary: cn mc m d)
  case Nil
  show ?case by (simp add: scan_consecutive_single)
next
  case (Cons n rest)
  obtain d' m' where n: "n = (d', m')" by (cases n)
  show ?case
    unfolding n scan_consecutive_Cons2
    by (simp add: Cons.IH deep_pv_changed_pair Let_def)
qed

text \<open>
  C3, as stated, fails: the result is not the result on the trace with the samples below
  depth 10 removed. On the trace \<open>[(9, e2e4), (10, d2d4)]\<close> the depth-9 sample is the
  previous sample of the depth-10 one, which therefore contributes its depth: the code
  returns \<open>(10, 1)\<close>. On the filtered trace \<open>[(10, d2d4)]\<close> the code raises, and the
  specification's scan of the filtered trace gives \<open>(0, 0)\<close>.
\<close>

theorem GetComplexityNumber_discard_counterexample:
  "GetComplexityNumber [(9, ''e2e4''), (10, ''d2d4'')] = Inr (10, 1)
   \<and> GetComplexityNumber (discard_shallow [(9, ''e2e4''), (10, ''d2d4'')]) = Inl NameError
   \<and> spec_ComplexityAnalyzer [(9, ''e2e4''), (10, ''d2d4'')] = (0, 0)"
  by (simp add: GetComplexityNumber_def discard_shallow_def spec_ComplexityAnalyzer_def
      scan_consecutive_def)

text \<open>
  C3, amended. \<open>GetComplexityNumber\<close> counts only samples of depth at least 10, but it
  compares each of them with the sample immediately before it in the unfiltered trace,
  whatever the depth of that sample: for a trace that is empty or starts with a sample
  below depth 10, the result is the sum of the depths, and the number, of the samples of
  depth at least 10 whose PV move and depth both differ from their immediate predecessor.
\<close>

theorem GetComplexityNumber_counts_deep_changes:
  assumes "starts_shallow savedMove"
  shows "GetComplexityNumber savedMove = Inr (scan_consecutive deep_pv_changed savedMove)"
proof (cases savedMove)
  case Nil
  then show ?thesis by (simp add: GetComplexityNumber_def scan_consecutive_def)
next
  case (Cons n rest)
  obtain d m where n: "n = (d, m)" by (cases n)
  from assms Cons n have "d < 10" by (simp add: starts_shallow_def)
  then show ?thesis
    unfolding Cons n GetComplexityNumber_def
    by (simp add: GetComplexityNumber_loop_bound)
qed

theorem GetComplexityNumber_counts_deep_changes_witness:
  "starts_shallow [(9, ''e2e4''), (10, ''d2d4''), (11, ''d2d4''), (12, ''e2e4'')]
   \<and> GetComplexityNumber [(9, ''e2e4''), (10, ''d2d4''), (11, ''d2d4''), (12, ''e2e4'')]
       = Inr (22, 2)"
  using GetComplexityNumber_counts_deep_changes
    [of "[(9, ''e2e4''), (10, ''d2d4''), (11, ''d2d4''), (12, ''e2e4'')]"]
  by (simp add: starts_shallow_def scan_consecutive_def deep_pv_changed_pair)

text \<open>
  C4. A non-empty trace whose first sample has depth at least 10 makes the loop read
  \<open>lastMove\<close> before any assignment, and the call raises \<open>NameError\<close>. When the first
  sample is below depth 10 the call returns a pair, and on the empty trace it returns
  \<open>(0, 0)\<close>.
\<close>

theorem GetComplexityNumber_unbound_locals:
  "(d \<ge> 10 \<longrightarrow> GetComplexityNumber ((d, m) # rest) = Inl NameError)
   \<and> (d < 10 \<longrightarrow> (\<exists>cn mc. GetComplexityNumber ((d, m) # rest) = Inr (cn, mc)))
   \<and> GetComplexityNumber [] = Inr (0, 0)"
  by (simp add: GetComplexityNumber_def GetComplexityNumber_loop_bound)

theorem GetComplexityNumber_unbound_locals_witness:
  "GetComplexityNumber ((10, ''e2e4'') # [(11, ''d2d4'')]) = Inl NameError
   \<and> (\<exists>cn mc. GetComplexityNumber ((1, ''e2e4'') # [(10, ''d2d4'')]) = Inr (cn, mc))"
  using GetComplexityNumber_unbound_locals [of 10 "''e2e4''" "[(11, ''d2d4'')]"]
    GetComplexityNumber_unbound_locals [of 1 "''e2e4''" "[(10, ''d2d4'')]"]
  by simp

subsection \<open>EngineSession\<close>

lemma GetEngineIdName_loop_no_id:
  "no_id_name_line replies \<Longrightarrow> GetEngineIdName_loop replies name = name"
  by (induction replies) (auto simp: Let_def)

lemma path_extension_length: "path_extension p = [] \<or> length (path_extension p) < length p"
proof -
  let ?name = "rev (takeWhile (\<lambda>c. \<not> path_separator c) (rev p))"
  have "length ?name \<le> length p"
    using length_takeWhile_le [of "\<lambda>c. \<not> path_separator c" "rev p"] by simp
  then show ?thesis
    by (auto simp: path_extension_def Let_def)
qed

lemma take_eq_take_iff:
  "a \<le> length xs \<Longrightarrow> b \<le> length xs \<Longrightarrow> take a xs = take b xs \<longleftrightarrow> a = b"
  by (metis length_take min.absorb2)

text \<open>
  C7, as stated, fails: the fallback is not the path minus its extension for every path.
  A path without an extension loses its last four characters (\<open>stockfish\<close> gives
  \<open>stock\<close>), and so does a path with a two-character extension (\<open>./sf.sh\<close> gives
  \<open>./s\<close>, not \<open>./sf\<close>).
\<close>

theorem GetEngineIdName_fallback_counterexample:
  "no_id_name_line [''uciok\<newline>'']
   \<and> GetEngineIdName ''stockfish'' [''uciok\<newline>''] = ''stock''
   \<and> spec_minus_extension ''stockfish'' = ''stockfish''
   \<and> GetEngineIdName ''./sf.sh'' [''uciok\<newline>''] = ''./s''
   \<and> spec_minus_extension ''./sf.sh'' = ''./sf''"
  by code_simp

text \<open>
  C7, amended. When the handshake shows no \<open>id name\<close> line up to the \<open>uciok\<close> line,
  \<open>GetEngineIdName\<close> returns the engine path without its last four characters (the
  empty string when the path has at most four). This is the path minus its extension
  exactly when the extension is a dot followed by three characters, as in
  \<open>engine.exe\<close>, or the path is empty.
\<close>

theorem GetEngineIdName_fallback:
  assumes "no_id_name_line replies"
  shows "GetEngineIdName path replies = take (length path - 4) path
   \<and> (GetEngineIdName path replies = spec_minus_extension path
        \<longleftrightarrow> length (path_extension path) = 4 \<or> path = [])"
proof -
  have fb: "GetEngineIdName path replies = take (length path - 4) path"
    using assms by (simp add: GetEngineIdName_def GetEngineIdName_loop_no_id)
  have "take (length path - 4) path = take (length path - length (path_extension path)) path
        \<longleftrightarrow> length path - 4 = length path - length (path_extension path)"
    by (rule take_eq_take_iff) simp_all
  moreover have "length path - 4 = length path - length (path_extension path)
        \<longleftrightarrow> length (path_extension path) = 4 \<or> path = []"
  proof (cases "path = []")
    case True
    then show ?thesis by (simp add: path_extension_def)
  next
    case False
    define n where "n = length path"
    define k where "k = length (path_extension path)"
    have "0 < n" using False by (simp add: n_def)
    moreover have "k = 0 \<or> k < n"
      using path_extension_length [of path] by (auto simp: n_def k_def)
    ultimately have "n - 4 = n - k \<longleftrightarrow> k = 4" by arith
    then show ?thesis using False by (simp add: n_def k_def)
  qed
  ultimately show ?thesis
    using fb by (simp add: spec_minus_extension_def)
qed

theorem GetEngineIdName_fallback_witness:
  "no_id_name_line [''Stockfish 8 by T. Romstad\<newline>'', ''uciok\<newline>'']
   \<and> GetEngineIdName ''engine.exe'' [''Stockfish 8 by T. Romstad\<newline>'', ''uciok\<newline>''] = ''engine''
   \<and> spec_minus_extension ''engine.exe'' = ''engine''"
  using GetEngineIdName_fallback
    [of "[''Stockfish 8 by T. Romstad\<newline>'', ''uciok\<newline>'']" "''engine.exe''"]
  by code_simp

subsection \<open>Strings and numbers\<close>

text \<open>
  \<open>py_in\<close> is the substring test; the words of \<open>py_split\<close> are non-empty, free of
  whitespace and together hold the characters of the string that are not whitespace;
  \<open>show_nat\<close> writes the decimal digits of its argument without a leading zero, and
  \<open>show_int\<close> puts a minus sign before the digits of a negative number.
\<close>

lemma py_in_iff: "py_in sub s \<longleftrightarrow> (\<exists>a b. s = a @ sub @ b)"
proof (induction s)
  case Nil
  show ?case by auto
next
  case (Cons c cs)
  have "(\<exists>a b. c # cs = a @ sub @ b)
        \<longleftrightarrow> take (length sub) (c # cs) = sub \<or> (\<exists>a b. cs = a @ sub @ b)"
  proof
    assume "\<exists>a b. c # cs = a @ sub @ b"
    then obtain a b where ab: "c # cs = a @ sub @ b" by blast
    show "take (length sub) (c # cs) = sub \<or> (\<exists>a b. cs = a @ sub @ b)"
    proof (cases a)
      case Nil
      with ab show ?thesis by simp
    next
      case (Cons x a')
      with ab have "cs = a' @ sub @ b" by simp
      then show ?thesis by blast
    qed
  next
    assume "take (length sub) (c # cs) = sub \<or> (\<exists>a b. cs = a @ sub @ b)"
    then show "\<exists>a b. c # cs = a @ sub @ b"
    proof
      assume "take (length sub) (c # cs) = sub"
      then have "c # cs = [] @ sub @ drop (length sub) (c # cs)"
        by (metis append_Nil append_take_drop_id)
      then show ?thesis by blast
    next
      assume "\<exists>a b. cs = a @ sub @ b"
      then obtain a b where "cs = a @ sub @ b" by blast
      then have "c # cs = (c # a) @ sub @ b" by simp
      then show ?thesis by blast
    qed
  qed
  with Cons show ?case by simp
qed



lemma py_split_from_concat:
  "concat (py_split_from s acc) = acc @ filter (\<lambda>c. \<not> isspace c) s"
  by (induction s arbitrary: acc) simp_all

lemma py_split_concat: "concat (py_split s) = filter (\<lambda>c. \<not> isspace c) s"
  by (simp add: py_split_def py_split_from_concat)









lemma decimal_value_snoc:
  "decimal_value (ds @ [c]) = 10 * decimal_value ds + (of_char c - 48)"
  by (simp add: decimal_value_def)

lemma show_nat_decimal: "decimal_value (show_nat n) = n"
proof (induction n rule: show_nat.induct)
  case (1 n)
  show ?case
  proof (cases "n < 10")
    case True
    then show ?thesis
      by (subst show_nat.simps) (simp add: decimal_value_def)
  next
    case False
    with 1 have "decimal_value (show_nat (n div 10)) = n div 10" by simp
    with False show ?thesis
      by (subst show_nat.simps) (simp add: decimal_value_snoc)
  qed
qed

lemma digit_char: "d < 10 \<Longrightarrow> char_of (48 + d) \<in> set ''0123456789''" for d :: nat
proof -
  assume "d < 10"
  then consider "d = 0" | "d = 1" | "d = 2" | "d = 3" | "d = 4" | "d = 5" | "d = 6"
    | "d = 7" | "d = 8" | "d = 9" by atomize_elim arith
  then show ?thesis by cases (simp_all add: char_of_def bit_Suc_0_iff)
qed

lemma show_nat_digits: "set (show_nat n) \<subseteq> set ''0123456789''"
proof (induction n rule: show_nat.induct)
  case (1 n)
  show ?case
  proof (cases "n < 10")
    case True
    with digit_char [of n] show ?thesis by (subst show_nat.simps) simp
  next
    case False
    with 1 digit_char [of "n mod 10"] show ?thesis by (subst show_nat.simps) simp
  qed
qed

lemma show_nat_no_leading_zero:
  "show_nat n \<noteq> [] \<and> (n \<noteq> 0 \<longrightarrow> hd (show_nat n) \<noteq> CHR ''0'')"
proof (induction n rule: show_nat.induct)
  case (1 n)
  show ?case
  proof (cases "n < 10")
    case True
    have "n \<noteq> 0 \<Longrightarrow> char_of (48 + n) \<noteq> CHR ''0''"
    proof
      assume "n \<noteq> 0" and "char_of (48 + n) = CHR ''0''"
      then have "of_char (char_of (48 + n)) = (of_char (CHR ''0'') :: nat)" by simp
      with True \<open>n \<noteq> 0\<close> show False by simp
    qed
    with True show ?thesis by (subst (1 2) show_nat.simps) simp
  next
    case False
    then have "n div 10 \<noteq> 0" by simp
    with 1 False have "show_nat (n div 10) \<noteq> []" "hd (show_nat (n div 10)) \<noteq> CHR ''0''"
      by simp_all
    with False show ?thesis by (subst (1 2) show_nat.simps) simp
  qed
qed

lemma show_int_sign:
  "show_int (int n) = show_nat n
   \<and> show_int (- int (Suc n)) = CHR ''-'' # show_nat (Suc n)"
proof -
  have "nat (int n + 1) = Suc n" by simp
  then show ?thesis by (simp add: show_int_def)
qed


lemma show_int_1: "show_int 1 = ''1''"
  by code_simp

subsection \<open>EPD test-suite aggregation\<close>














subsection \<open>AnalysisOrchestrator: annotating a half-move\<close>

text \<open>No writer runs an engine session, whether it returns or raises.\<close>

lemma WriteSanMove_sessions: "sessions (WriteSanMove self side n san) = sessions self"
  by (simp add: WriteSanMove_def count_write_def fwrite_def wrap_line_def Let_def)

lemma WritePosScore_sessions: "sessions (WritePosScore self side n san p) = sessions self"
  by (simp add: WritePosScore_def count_write_def fwrite_def wrap_line_def Let_def)

lemma WriteBookMove_sessions: "sessions (WriteBookMove self side n san b) = sessions self"
  by (simp add: WriteBookMove_def count_write_def fwrite_def wrap_line_def Let_def)

lemma WritePosScoreBookMove_sessions:
  "sessions (WritePosScoreBookMove self side n san b p) = sessions self"
  by (simp add: WritePosScoreBookMove_def count_write_def fwrite_def wrap_line_def Let_def)

lemma WritePosScoreEngMove_sessions:
  "sessions (write_state (WritePosScoreEngMove self side n san p em es cn mc)) = sessions self"
  by (simp add: WritePosScoreEngMove_def write_state_def count_write_def fwrite_def
      wrap_line_def Let_def split: sum.splits)

lemma WritePosScoreBookMoveEngMove_sessions:
  "sessions (write_state (WritePosScoreBookMoveEngMove self side n san b p em es)) = sessions self"
  by (simp add: WritePosScoreBookMoveEngMove_def write_state_def count_write_def fwrite_def
      wrap_line_def Let_def split: sum.splits)

lemma WriteBookMoveEngMove_sessions:
  "sessions (write_state (WriteBookMoveEngMove self side n san b em es)) = sessions self"
  by (simp add: WriteBookMoveEngMove_def write_state_def count_write_def fwrite_def
      wrap_line_def Let_def split: sum.splits)

lemma WriteNotation_sessions:
  "sessions (write_state (WriteNotation self side n san b p over e cn mc)) = sessions self"
proof (cases over)
  case True
  then show ?thesis by (simp add: WriteNotation_def write_state_def WriteSanMove_sessions)
next
  case False
  show ?thesis
  proof (cases p)
    case None
    show ?thesis
    proof (cases b)
      case bn: None
      show ?thesis
        using False None bn
        by (cases e) (auto simp: WriteNotation_def write_state_def WriteSanMove_sessions)
    next
      case (Some bm)
      show ?thesis
        using False None Some WriteBookMoveEngMove_sessions
        by (cases e) (auto simp: WriteNotation_def WriteBookMove_sessions write_state_def)
    qed
  next
    case (Some ps)
    show ?thesis
    proof (cases b)
      case None
      show ?thesis
        using False None Some WritePosScoreEngMove_sessions
        by (cases e) (auto simp: WriteNotation_def WritePosScore_sessions write_state_def)
    next
      case sb: (Some bm)
      show ?thesis
        using False sb Some WritePosScoreBookMoveEngMove_sessions
        by (cases e)
          (auto simp: WriteNotation_def WritePosScoreBookMove_sessions write_state_def)
    qed
  qed
qed

lemma result_state_write:
  "result_state (case w of Inl e \<Rightarrow> Inl e | Inr s \<Rightarrow> Inr (s, b)) = write_state w"
  by (auto simp: result_state_def write_state_def split: sum.splits)

lemma result_state_Inl: "result_state (Inl (e, s)) = s"
  by (simp add: result_state_def)

lemma steps_4_to_6:
  "sessions (result_state
      (case get_engine_best env s2 hm (Some p) of
         Inl e \<Rightarrow> Inl e
       | Inr (engine, s3) \<Rightarrow>
           (case WriteNotation s3 side n san b (Some p) over engine cn mc of
              Inl e \<Rightarrow> Inl e
            | Inr s \<Rightarrow> Inr (s, ice))))
   = sessions s2
     @ (if \<bar>p\<bar> \<le> 6 \<and> jobOpt s2 = ''analyze''
        then [SearchBeforeMove (hm_fenBefore hm) (hm_side hm)] else [])"
proof (cases "\<bar>p\<bar> \<le> 6 \<and> jobOpt s2 = ''analyze''")
  case False
  then have "get_engine_best env s2 hm (Some p) = Inr (None, s2)"
    by (auto simp: get_engine_best_def WIN_SCORE_def)
  with False show ?thesis
    by (simp add: result_state_write WriteNotation_sessions)
next
  case True
  let ?s3 = "run_session s2 (SearchBeforeMove (hm_fenBefore hm) (hm_side hm))"
  have s3: "sessions ?s3 = sessions s2 @ [SearchBeforeMove (hm_fenBefore hm) (hm_side hm)]"
    by (simp add: run_session_def)
  show ?thesis
  proof (cases "GetSearchScoreBeforeMove env (hm_fenBefore hm) (hm_side hm)")
    case (Inl e)
    with True have "get_engine_best env s2 hm (Some p) = Inl (e, ?s3)"
      by (simp add: get_engine_best_def WIN_SCORE_def Let_def)
    with True s3 show ?thesis by (simp add: result_state_Inl)
  next
    case (Inr ms)
    obtain m sc where ms: "ms = (m, sc)" by (cases ms)
    with True Inr have "get_engine_best env s2 hm (Some p) = Inr (Some (m, sc), ?s3)"
      by (simp add: get_engine_best_def WIN_SCORE_def Let_def)
    with True s3 show ?thesis by (simp add: result_state_write WriteNotation_sessions)
  qed
qed

lemma steps_3_to_6_static:
  assumes "evalOpt s1 = ''static''"
  shows "sessions (result_state
      (case get_posScore env s1 hm of
         Inl e \<Rightarrow> Inl e
       | Inr (posScore, complexityNumber, moveChanges, s2) \<Rightarrow>
           (case get_engine_best env s2 hm posScore of
              Inl e \<Rightarrow> Inl e
            | Inr (engine, s3) \<Rightarrow>
                (case WriteNotation s3 side n san b posScore over engine
                        complexityNumber moveChanges of
                   Inl e \<Rightarrow> Inl e
                 | Inr s \<Rightarrow> Inr (s, ice)))))
   = sessions s1 @ [StaticEval (hm_fenAfter hm)]
     @ (case GetStaticEvalAfterMove env (hm_fenAfter hm) of
          Inl e \<Rightarrow> []
        | Inr p \<Rightarrow>
            if \<bar>p\<bar> \<le> 6 \<and> jobOpt s1 = ''analyze''
            then [SearchBeforeMove (hm_fenBefore hm) (hm_side hm)] else [])"
proof -
  let ?s2 = "run_session s1 (StaticEval (hm_fenAfter hm))"
  have s2: "sessions ?s2 = sessions s1 @ [StaticEval (hm_fenAfter hm)]" "jobOpt ?s2 = jobOpt s1"
    by (simp_all add: run_session_def)
  show ?thesis
  proof (cases "GetStaticEvalAfterMove env (hm_fenAfter hm)")
    case (Inl e)
    with assms have "get_posScore env s1 hm = Inl (e, ?s2)"
      by (simp add: get_posScore_def Let_def)
    with Inl s2 show ?thesis by (simp add: result_state_Inl)
  next
    case (Inr p)
    with assms have "get_posScore env s1 hm = Inr (Some p, 0, 0, ?s2)"
      by (simp add: get_posScore_def Let_def)
    with Inr s2 steps_4_to_6 [where env = env and ?s2.0 = ?s2 and hm = hm and p = p and side = side
        and n = n and san = san and b = b and over = over and cn = 0 and mc = 0 and ice = ice]
    show ?thesis by simp
  qed
qed

lemma steps_3_to_6_search:
  assumes "evalOpt s1 = ''search''"
  shows "sessions (result_state
      (case get_posScore env s1 hm of
         Inl e \<Rightarrow> Inl e
       | Inr (posScore, complexityNumber, moveChanges, s2) \<Rightarrow>
           (case get_engine_best env s2 hm posScore of
              Inl e \<Rightarrow> Inl e
            | Inr (engine, s3) \<Rightarrow>
                (case WriteNotation s3 side n san b posScore over engine
                        complexityNumber moveChanges of
                   Inl e \<Rightarrow> Inl e
                 | Inr s \<Rightarrow> Inr (s, ice)))))
   = sessions s1 @ [SearchAfterMove (hm_fenAfter hm) (hm_side hm)]
     @ (case GetSearchScoreAfterMove env (hm_fenAfter hm) (hm_side hm) of
          Inl e \<Rightarrow> []
        | Inr (p, cn, mc) \<Rightarrow>
            if \<bar>p\<bar> \<le> 6 \<and> jobOpt s1 = ''analyze''
            then [SearchBeforeMove (hm_fenBefore hm) (hm_side hm)] else [])"
proof -
  let ?s2 = "run_session s1 (SearchAfterMove (hm_fenAfter hm) (hm_side hm))"
  have s2: "sessions ?s2 = sessions s1 @ [SearchAfterMove (hm_fenAfter hm) (hm_side hm)]"
    "jobOpt ?s2 = jobOpt s1"
    by (simp_all add: run_session_def)
  have ev: "evalOpt s1 \<noteq> ''static''" using assms by simp
  show ?thesis
  proof (cases "GetSearchScoreAfterMove env (hm_fenAfter hm) (hm_side hm)")
    case (Inl e)
    with assms ev have "get_posScore env s1 hm = Inl (e, ?s2)"
      by (simp add: get_posScore_def Let_def)
    with Inl s2 show ?thesis by (simp add: result_state_Inl)
  next
    case (Inr r)
    obtain p cn mc where r: "r = (p, cn, mc)" by (cases r)
    with Inr assms ev have "get_posScore env s1 hm = Inr (Some p, cn, mc, ?s2)"
      by (simp add: get_posScore_def Let_def)
    with Inr r s2 steps_4_to_6 [where env = env and ?s2.0 = ?s2 and hm = hm and p = p and side = side
        and n = n and san = san and b = b and over = over and cn = cn and mc = mc and ice = ice]
    show ?thesis by simp
  qed
qed

lemma AnnotateHalfMove_no_book_move:
  assumes "bookOpt self = ''cerebellum''"
    and "isCereEnd \<or> GetCerebellumBookMove env (hm_fenBefore hm) = Inr None"
  shows "\<exists>ice. AnnotateHalfMove env self isCereEnd hm =
     (case get_posScore env
             (if isCereEnd then self else run_session self (BookProbe (hm_fenBefore hm))) hm of
         Inl e \<Rightarrow> Inl e
       | Inr (posScore, complexityNumber, moveChanges, s2) \<Rightarrow>
           (case get_engine_best env s2 hm posScore of
              Inl e \<Rightarrow> Inl e
            | Inr (engine, s3) \<Rightarrow>
                (case WriteNotation s3 (hm_side hm) (hm_fmvn hm) (hm_sanMove hm) None posScore
                        (hm_isGameOver hm) engine complexityNumber moveChanges of
                   Inl e \<Rightarrow> Inl e
                 | Inr s \<Rightarrow> Inr (s, ice))))"
proof -
  let ?s1 = "if isCereEnd then self else run_session self (BookProbe (hm_fenBefore hm))"
  have "\<exists>ice. probe_book env self isCereEnd hm = Inr (None, ?s1, ice)"
  proof (cases isCereEnd)
    case True
    then show ?thesis by (auto simp: probe_book_def)
  next
    case False
    with assms show ?thesis by (auto simp: probe_book_def Let_def)
  qed
  then obtain ice where
    pb: "probe_book env self isCereEnd hm = Inr (None, ?s1, ice)" by blast
  have c0: "\<not> (hm_fmvn hm < moveStartOpt self \<and> bookOpt self \<noteq> ''cerebellum'')"
    using assms(1) by simp
  have c2: "\<not> (hm_fmvn hm < moveStartOpt ?s1 \<and> (None :: string option) \<noteq> None)"
    by simp
  have "AnnotateHalfMove env self isCereEnd hm =
     (case get_posScore env ?s1 hm of
         Inl e \<Rightarrow> Inl e
       | Inr (posScore, complexityNumber, moveChanges, s2) \<Rightarrow>
           (case get_engine_best env s2 hm posScore of
              Inl e \<Rightarrow> Inl e
            | Inr (engine, s3) \<Rightarrow>
                (case WriteNotation s3 (hm_side hm) (hm_fmvn hm) (hm_sanMove hm) None posScore
                        (hm_isGameOver hm) engine complexityNumber moveChanges of
                   Inl e \<Rightarrow> Inl e
                 | Inr s \<Rightarrow> Inr (s, ice))))"
    unfolding AnnotateHalfMove_def Let_def
    by (simp only: c0 c2 pb if_False sum.case prod.case)
  then show ?thesis by blast
qed

lemma probe_sessions:
  "sessions (if isCereEnd then self else run_session self (BookProbe fb))
     = sessions self @ (if isCereEnd then [] else [BookProbe fb])"
  "jobOpt (if isCereEnd then self else run_session self (BookProbe fb)) = jobOpt self"
  "evalOpt (if isCereEnd then self else run_session self (BookProbe fb)) = evalOpt self"
  by (simp_all add: run_session_def)

text \<open>
  C6, as stated, fails when the book is configured and the probe returns nothing: the
  guard of step (2) asks for a book move, so the half-move falls through to steps (3) to
  (6). With the book option \<open>cerebellum\<close>, static evaluation and \<open>moveStart = 8\<close>, the
  first move of a game, whose probe finds no book move, is evaluated by the engine (a
  static evaluation and a search before the move) and is written with a glyph and a score.
\<close>

theorem AnnotateHalfMove_below_moveStart_counterexample:
  "hm_fmvn example_halfmove < moveStartOpt example_analyze
   \<and> GetCerebellumBookMove stub_environment (hm_fenBefore example_halfmove) = Inr None
   \<and> map_sum fst (\<lambda>r. (sessions (fst r), outfile (fst r)))
        (AnnotateHalfMove stub_environment example_analyze False example_halfmove) =
       Inr ([BookProbe (hm_fenBefore example_halfmove),
             StaticEval (hm_fenAfter example_halfmove),
             SearchBeforeMove (hm_fenBefore example_halfmove) True],
            [Text ''1. e4 $0 {'', Float2 0.25, Text ''} ''])"
  by code_simp

text \<open>
  C6, amended. For a half-move whose full-move number is below \<open>moveStart\<close>:
  when no book is configured (the book option is not \<open>cerebellum\<close>) the orchestrator
  writes the bare move and runs no engine session; when the book is configured and the
  probe returns a move, it writes the move with the book alternative and runs no session
  but the probe; when the book is configured and the probe returns nothing, or the book
  was given up earlier in the game, the half-move is not short-circuited: with the eval
  option \<open>static\<close> (or \<open>search\<close>) the static evaluation (or the search) of the position
  after the move is the next engine session, and the search before the move follows it
  when the score lies within the win threshold and the job is \<open>analyze\<close>.
\<close>

theorem AnnotateHalfMove_below_moveStart:
  assumes "hm_fmvn hm < moveStartOpt self"
  shows "(bookOpt self \<noteq> ''cerebellum'' \<longrightarrow>
            AnnotateHalfMove env self isCereEnd hm =
              Inr (if hm_side hm
                   then self\<lparr>writeCnt := writeCnt self + 1,
                          outfile := outfile self @
                            [Text (show_int (hm_fmvn hm) @ ''. '' @ hm_sanMove hm @ '' '')]\<rparr>
                   else if writeCnt self + 1 \<ge> 4
                   then self\<lparr>writeCnt := 0,
                          outfile := outfile self @
                            [Text (hm_sanMove hm @ '' ''), Text ''\<newline>'']\<rparr>
                   else self\<lparr>writeCnt := writeCnt self + 1,
                          outfile := outfile self @ [Text (hm_sanMove hm @ '' '')]\<rparr>,
                   isCereEnd))
   \<and> (bookOpt self = ''cerebellum'' \<and> \<not> isCereEnd
        \<and> GetCerebellumBookMove env (hm_fenBefore hm) = Inr (Some bookMove) \<longrightarrow>
            AnnotateHalfMove env self isCereEnd hm =
              Inr (if hm_side hm
                   then self\<lparr>writeCnt := writeCnt self + 1,
                          outfile := outfile self @
                            [Text (show_int (hm_fmvn hm) @ ''. '' @ hm_sanMove hm @ '' (''
                                   @ show_int (hm_fmvn hm) @ ''. '' @ bookMove
                                   @ '' {cerebellum}) '')],
                          sessions := sessions self @ [BookProbe (hm_fenBefore hm)]\<rparr>
                   else if writeCnt self + 1 \<ge> 2
                   then self\<lparr>writeCnt := 0,
                          outfile := outfile self @
                            [Text (show_int (hm_fmvn hm) @ ''... '' @ hm_sanMove hm @ '' (''
                                   @ show_int (hm_fmvn hm) @ ''... '' @ bookMove
                                   @ '' {cerebellum}) ''),
                             Text ''\<newline>''],
                          sessions := sessions self @ [BookProbe (hm_fenBefore hm)]\<rparr>
                   else self\<lparr>writeCnt := writeCnt self + 1,
                          outfile := outfile self @
                            [Text (show_int (hm_fmvn hm) @ ''... '' @ hm_sanMove hm @ '' (''
                                   @ show_int (hm_fmvn hm) @ ''... '' @ bookMove
                                   @ '' {cerebellum}) '')],
                          sessions := sessions self @ [BookProbe (hm_fenBefore hm)]\<rparr>,
                   isCereEnd))
   \<and> (bookOpt self = ''cerebellum''
        \<and> (isCereEnd \<or> GetCerebellumBookMove env (hm_fenBefore hm) = Inr None)
        \<and> evalOpt self = ''static'' \<longrightarrow>
            sessions (result_state (AnnotateHalfMove env self isCereEnd hm)) =
              sessions self
              @ (if isCereEnd then [] else [BookProbe (hm_fenBefore hm)])
              @ [StaticEval (hm_fenAfter hm)]
              @ (case GetStaticEvalAfterMove env (hm_fenAfter hm) of
                   Inl e \<Rightarrow> []
                 | Inr p \<Rightarrow>
                     if \<bar>p\<bar> \<le> 6 \<and> jobOpt self = ''analyze''
                     then [SearchBeforeMove (hm_fenBefore hm) (hm_side hm)] else []))
   \<and> (bookOpt self = ''cerebellum''
        \<and> (isCereEnd \<or> GetCerebellumBookMove env (hm_fenBefore hm) = Inr None)
        \<and> evalOpt self = ''search'' \<longrightarrow>
            sessions (result_state (AnnotateHalfMove env self isCereEnd hm)) =
              sessions self
              @ (if isCereEnd then [] else [BookProbe (hm_fenBefore hm)])
              @ [SearchAfterMove (hm_fenAfter hm) (hm_side hm)]
              @ (case GetSearchScoreAfterMove env (hm_fenAfter hm) (hm_side hm) of
                   Inl e \<Rightarrow> []
                 | Inr (p, cn, mc) \<Rightarrow>
                     if \<bar>p\<bar> \<le> 6 \<and> jobOpt self = ''analyze''
                     then [SearchBeforeMove (hm_fenBefore hm) (hm_side hm)] else []))"
proof (intro conjI impI)
  assume "bookOpt self \<noteq> ''cerebellum''"
  with assms show "AnnotateHalfMove env self isCereEnd hm =
              Inr (if hm_side hm
                   then self\<lparr>writeCnt := writeCnt self + 1,
                          outfile := outfile self @
                            [Text (show_int (hm_fmvn hm) @ ''. '' @ hm_sanMove hm @ '' '')]\<rparr>
                   else if writeCnt self + 1 \<ge> 4
                   then self\<lparr>writeCnt := 0,
                          outfile := outfile self @
                            [Text (hm_sanMove hm @ '' ''), Text ''\<newline>'']\<rparr>
                   else self\<lparr>writeCnt := writeCnt self + 1,
                          outfile := outfile self @ [Text (hm_sanMove hm @ '' '')]\<rparr>,
                   isCereEnd)"
    by (simp add: AnnotateHalfMove_def WriteNotation_def WriteSanMove_def count_write_def
        fwrite_def wrap_line_def Let_def)
next
  assume "bookOpt self = ''cerebellum'' \<and> \<not> isCereEnd
        \<and> GetCerebellumBookMove env (hm_fenBefore hm) = Inr (Some bookMove)"
  with assms show "AnnotateHalfMove env self isCereEnd hm =
              Inr (if hm_side hm
                   then self\<lparr>writeCnt := writeCnt self + 1,
                          outfile := outfile self @
                            [Text (show_int (hm_fmvn hm) @ ''. '' @ hm_sanMove hm @ '' (''
                                   @ show_int (hm_fmvn hm) @ ''. '' @ bookMove
                                   @ '' {cerebellum}) '')],
                          sessions := sessions self @ [BookProbe (hm_fenBefore hm)]\<rparr>
                   else if writeCnt self + 1 \<ge> 2
                   then self\<lparr>writeCnt := 0,
                          outfile := outfile self @
                            [Text (show_int (hm_fmvn hm) @ ''... '' @ hm_sanMove hm @ '' (''
                                   @ show_int (hm_fmvn hm) @ ''... '' @ bookMove
                                   @ '' {cerebellum}) ''),
                             Text ''\<newline>''],
                          sessions := sessions self @ [BookProbe (hm_fenBefore hm)]\<rparr>
                   else self\<lparr>writeCnt := writeCnt self + 1,
                          outfile := outfile self @
                            [Text (show_int (hm_fmvn hm) @ ''... '' @ hm_sanMove hm @ '' (''
                                   @ show_int (hm_fmvn hm) @ ''... '' @ bookMove
                                   @ '' {cerebellum}) '')],
                          sessions := sessions self @ [BookProbe (hm_fenBefore hm)]\<rparr>,
                   isCereEnd)"
    by (simp add: AnnotateHalfMove_def WriteNotation_def probe_book_def run_session_def
        WriteBookMove_def count_write_def fwrite_def wrap_line_def Let_def)
next
  assume h: "bookOpt self = ''cerebellum''
        \<and> (isCereEnd \<or> GetCerebellumBookMove env (hm_fenBefore hm) = Inr None)
        \<and> evalOpt self = ''static''"
  let ?s1 = "if isCereEnd then self else run_session self (BookProbe (hm_fenBefore hm))"
  from h AnnotateHalfMove_no_book_move [where self = self and isCereEnd = isCereEnd
      and env = env and hm = hm] obtain ice where
    r: "AnnotateHalfMove env self isCereEnd hm =
     (case get_posScore env ?s1 hm of
         Inl e \<Rightarrow> Inl e
       | Inr (posScore, complexityNumber, moveChanges, s2) \<Rightarrow>
           (case get_engine_best env s2 hm posScore of
              Inl e \<Rightarrow> Inl e
            | Inr (engine, s3) \<Rightarrow>
                (case WriteNotation s3 (hm_side hm) (hm_fmvn hm) (hm_sanMove hm) None posScore
                        (hm_isGameOver hm) engine complexityNumber moveChanges of
                   Inl e \<Rightarrow> Inl e
                 | Inr s \<Rightarrow> Inr (s, ice))))"
    by blast
  from h have ev: "evalOpt ?s1 = ''static''" by (simp add: probe_sessions)
  show "sessions (result_state (AnnotateHalfMove env self isCereEnd hm)) =
              sessions self
              @ (if isCereEnd then [] else [BookProbe (hm_fenBefore hm)])
              @ [StaticEval (hm_fenAfter hm)]
              @ (case GetStaticEvalAfterMove env (hm_fenAfter hm) of
                   Inl e \<Rightarrow> []
                 | Inr p \<Rightarrow>
                     if \<bar>p\<bar> \<le> 6 \<and> jobOpt self = ''analyze''
                     then [SearchBeforeMove (hm_fenBefore hm) (hm_side hm)] else [])"
    unfolding r steps_3_to_6_static [OF ev] probe_sessions by simp
next
  assume h: "bookOpt self = ''cerebellum''
        \<and> (isCereEnd \<or> GetCerebellumBookMove env (hm_fenBefore hm) = Inr None)
        \<and> evalOpt self = ''search''"
  let ?s1 = "if isCereEnd then self else run_session self (BookProbe (hm_fenBefore hm))"
  from h AnnotateHalfMove_no_book_move [where self = self and isCereEnd = isCereEnd
      and env = env and hm = hm] obtain ice where
    r: "AnnotateHalfMove env self isCereEnd hm =
     (case get_posScore env ?s1 hm of
         Inl e \<Rightarrow> Inl e
       | Inr (posScore, complexityNumber, moveChanges, s2) \<Rightarrow>
           (case get_engine_best env s2 hm posScore of
              Inl e \<Rightarrow> Inl e
            | Inr (engine, s3) \<Rightarrow>
                (case WriteNotation s3 (hm_side hm) (hm_fmvn hm) (hm_sanMove hm) None posScore
                        (hm_isGameOver hm) engine complexityNumber moveChanges of
                   Inl e \<Rightarrow> Inl e
                 | Inr s \<Rightarrow> Inr (s, ice))))"
    by blast
  from h have ev: "evalOpt ?s1 = ''search''" by (simp add: probe_sessions)
  show "sessions (result_state (AnnotateHalfMove env self isCereEnd hm)) =
              sessions self
              @ (if isCereEnd then [] else [BookProbe (hm_fenBefore hm)])
              @ [SearchAfterMove (hm_fenAfter hm) (hm_side hm)]
              @ (case GetSearchScoreAfterMove env (hm_fenAfter hm) (hm_side hm) of
                   Inl e \<Rightarrow> []
                 | Inr (p, cn, mc) \<Rightarrow>
                     if \<bar>p\<bar> \<le> 6 \<and> jobOpt self = ''analyze''
                     then [SearchBeforeMove (hm_fenBefore hm) (hm_side hm)] else [])"
    unfolding r steps_3_to_6_search [OF ev] probe_sessions by simp
qed

theorem AnnotateHalfMove_below_moveStart_witness:
  "hm_fmvn example_halfmove < moveStartOpt example_analyze
   \<and> map_sum fst (\<lambda>r. (writeCnt (fst r), sessions (fst r), outfile (fst r)))
        (AnnotateHalfMove stub_environment (example_analyze\<lparr>bookOpt := ''none''\<rparr>) False
           example_halfmove)
       = Inr (1, [], [Text ''1. e4 ''])
   \<and> map_sum fst (\<lambda>r. (writeCnt (fst r), sessions (fst r), outfile (fst r)))
        (AnnotateHalfMove book_environment (example_analyze\<lparr>writeCnt := 1\<rparr>) False
           (example_halfmove\<lparr>hm_side := False\<rparr>))
       = Inr (0, [BookProbe (hm_fenBefore example_halfmove)],
              [Text ''1... e4 (1... d4 {cerebellum}) '', Text ''\<newline>''])
   \<and> sessions (result_state
        (AnnotateHalfMove stub_environment example_analyze False example_halfmove))
       = [BookProbe (hm_fenBefore example_halfmove), StaticEval (hm_fenAfter example_halfmove),
          SearchBeforeMove (hm_fenBefore example_halfmove) True]
   \<and> sessions (result_state
        (AnnotateHalfMove stub_environment (example_analyze\<lparr>evalOpt := ''search''\<rparr>) True
           example_halfmove))
       = [SearchAfterMove (hm_fenAfter example_halfmove) True,
          SearchBeforeMove (hm_fenBefore example_halfmove) True]"
proof -
  have lt: "hm_fmvn example_halfmove < moveStartOpt example_analyze"
    by (simp add: example_halfmove_def example_analyze_def)
  have lt1: "hm_fmvn example_halfmove < moveStartOpt (example_analyze\<lparr>bookOpt := ''none''\<rparr>)"
    "hm_fmvn (example_halfmove\<lparr>hm_side := False\<rparr>)
       < moveStartOpt (example_analyze\<lparr>writeCnt := 1\<rparr>)"
    "hm_fmvn example_halfmove < moveStartOpt (example_analyze\<lparr>evalOpt := ''search''\<rparr>)"
    by (simp_all add: example_halfmove_def example_analyze_def)
  note a = AnnotateHalfMove_below_moveStart
    [where hm = example_halfmove and self = "example_analyze\<lparr>bookOpt := ''none''\<rparr>"
       and env = stub_environment and isCereEnd = False and bookMove = "''d4''", OF lt1(1)]
  note b = AnnotateHalfMove_below_moveStart
    [where hm = "example_halfmove\<lparr>hm_side := False\<rparr>"
       and self = "example_analyze\<lparr>writeCnt := 1\<rparr>"
       and env = book_environment and isCereEnd = False and bookMove = "''d4''", OF lt1(2)]
  note c = AnnotateHalfMove_below_moveStart
    [where hm = example_halfmove and self = example_analyze
       and env = stub_environment and isCereEnd = False and bookMove = "''d4''", OF lt]
  note d = AnnotateHalfMove_below_moveStart
    [where hm = example_halfmove and self = "example_analyze\<lparr>evalOpt := ''search''\<rparr>"
       and env = stub_environment and isCereEnd = True and bookMove = "''d4''", OF lt1(3)]
  from a have 1: "map_sum fst (\<lambda>r. (writeCnt (fst r), sessions (fst r), outfile (fst r)))
        (AnnotateHalfMove stub_environment (example_analyze\<lparr>bookOpt := ''none''\<rparr>) False
           example_halfmove)
       = Inr (1, [], [Text ''1. e4 ''])"
    by (simp add: example_analyze_def example_halfmove_def show_int_1)
  from b have 2: "map_sum fst (\<lambda>r. (writeCnt (fst r), sessions (fst r), outfile (fst r)))
        (AnnotateHalfMove book_environment (example_analyze\<lparr>writeCnt := 1\<rparr>) False
           (example_halfmove\<lparr>hm_side := False\<rparr>))
       = Inr (0, [BookProbe (hm_fenBefore example_halfmove)],
              [Text ''1... e4 (1... d4 {cerebellum}) '', Text ''\<newline>''])"
    by (simp add: example_analyze_def example_halfmove_def show_int_1 book_environment_def
        stub_environment_def)
  from c have 3: "sessions (result_state
        (AnnotateHalfMove stub_environment example_analyze False example_halfmove))
       = [BookProbe (hm_fenBefore example_halfmove), StaticEval (hm_fenAfter example_halfmove),
          SearchBeforeMove (hm_fenBefore example_halfmove) True]"
    by (simp add: example_analyze_def example_halfmove_def stub_environment_def)
  from d have 4: "sessions (result_state
        (AnnotateHalfMove stub_environment (example_analyze\<lparr>evalOpt := ''search''\<rparr>) True
           example_halfmove))
       = [SearchAfterMove (hm_fenAfter example_halfmove) True,
          SearchBeforeMove (hm_fenBefore example_halfmove) True]"
    by (simp add: example_analyze_def example_halfmove_def stub_environment_def)
  from lt 1 2 3 4 show ?thesis by simp
qed

lemma probe_book_fields:
  assumes "probe_book env self isCereEnd hm = Inr (cereBookMove, s1, isCereEnd1)"
  shows "evalOpt s1 = evalOpt self" and "moveStartOpt s1 = moveStartOpt self"
    and "outfile s1 = outfile self" and "bookOpt s1 = bookOpt self"
  using assms
  by (auto simp: probe_book_def run_session_def Let_def split: if_splits sum.splits)

lemma get_posScore_none:
  "evalOpt s \<noteq> ''static'' \<Longrightarrow> evalOpt s \<noteq> ''search'' \<Longrightarrow>
     get_posScore env s hm = Inr (None, 0, 0, s)"
  by (simp add: get_posScore_def)

lemma get_engine_best_none: "get_engine_best env s hm None = Inl (TypeError, s)"
  by (simp add: get_engine_best_def)

lemma AnnotateHalfMove_eval_none_raises:
  assumes ev: "evalOpt self \<noteq> ''static''" "evalOpt self \<noteq> ''search''"
    and probe: "bookOpt self = ''cerebellum'' \<and> \<not> isCereEnd \<longrightarrow>
                  GetCerebellumBookMove env (hm_fenBefore hm) = Inr bookMove"
    and nobook: "\<not> (bookOpt self = ''cerebellum'' \<and> \<not> isCereEnd) \<longrightarrow> bookMove = None"
    and reach: "hm_fmvn hm \<ge> moveStartOpt self
                \<or> (bookOpt self = ''cerebellum'' \<and> bookMove = None)"
  shows "AnnotateHalfMove env self isCereEnd hm =
     Inl (TypeError,
          if bookOpt self = ''cerebellum'' \<and> \<not> isCereEnd
          then self\<lparr>sessions := sessions self @ [BookProbe (hm_fenBefore hm)]\<rparr>
          else self)"
proof -
  let ?s1 = "if bookOpt self = ''cerebellum'' \<and> \<not> isCereEnd
          then self\<lparr>sessions := sessions self @ [BookProbe (hm_fenBefore hm)]\<rparr>
          else self"
  have "\<exists>ice. probe_book env self isCereEnd hm = Inr (bookMove, ?s1, ice)"
  proof (cases "bookOpt self = ''cerebellum'' \<and> \<not> isCereEnd")
    case True
    with probe show ?thesis by (auto simp: probe_book_def run_session_def Let_def)
  next
    case False
    with nobook show ?thesis by (auto simp: probe_book_def)
  qed
  then obtain ice where pb: "probe_book env self isCereEnd hm = Inr (bookMove, ?s1, ice)"
    by blast
  note f = probe_book_fields [OF pb]
  have c0: "\<not> (hm_fmvn hm < moveStartOpt self \<and> bookOpt self \<noteq> ''cerebellum'')"
    using reach by auto
  have c2: "\<not> (hm_fmvn hm < moveStartOpt ?s1 \<and> bookMove \<noteq> None)"
    using reach by auto
  have ps: "get_posScore env ?s1 hm = Inr (None, 0, 0, ?s1)"
    using ev f(1) by (simp add: get_posScore_none)
  show ?thesis
    unfolding AnnotateHalfMove_def Let_def
    by (simp only: c0 c2 pb ps get_engine_best_none if_False sum.case prod.case)
qed

lemma WriteSanMove_options:
  "evalOpt (WriteSanMove self side n san) = evalOpt self
   \<and> moveStartOpt (WriteSanMove self side n san) = moveStartOpt self"
  by (simp add: WriteSanMove_def count_write_def fwrite_def wrap_line_def Let_def)

lemma WriteBookMove_options:
  "evalOpt (WriteBookMove self side n san b) = evalOpt self
   \<and> moveStartOpt (WriteBookMove self side n san b) = moveStartOpt self"
  by (simp add: WriteBookMove_def count_write_def fwrite_def wrap_line_def Let_def)

lemma WriteNotation_bare:
  "WriteNotation self side n san None None False None cn mc = Inr (WriteSanMove self side n san)"
  by (simp add: WriteNotation_def)

lemma WriteNotation_book:
  "WriteNotation self side n san (Some b) None False None cn mc
     = Inr (WriteBookMove self side n san b)"
  by (simp add: WriteNotation_def)

text \<open>
  With an eval option other than \<open>static\<close> and \<open>search\<close>, a half-move is annotated
  without an exception only when it is short-circuited below \<open>moveStart\<close>, and the
  options are left as they were.
\<close>

lemma AnnotateHalfMove_eval_none_completes:
  assumes ev: "evalOpt self \<noteq> ''static''" "evalOpt self \<noteq> ''search''"
    and ok: "AnnotateHalfMove env self isCereEnd hm = Inr (s, isCereEnd1)"
  shows "hm_fmvn hm < moveStartOpt self \<and> evalOpt s = evalOpt self
         \<and> moveStartOpt s = moveStartOpt self"
proof (cases "hm_fmvn hm < moveStartOpt self \<and> bookOpt self \<noteq> ''cerebellum''")
  case True
  then have "AnnotateHalfMove env self isCereEnd hm =
      Inr (WriteSanMove self (hm_side hm) (hm_fmvn hm) (hm_sanMove hm), isCereEnd)"
    by (simp add: AnnotateHalfMove_def WriteNotation_bare Let_def)
  with ok True show ?thesis by (auto simp: WriteSanMove_options)
next
  case c0: False
  show ?thesis
  proof (cases "probe_book env self isCereEnd hm")
    case (Inl e)
    have "AnnotateHalfMove env self isCereEnd hm = Inl e"
      unfolding AnnotateHalfMove_def Let_def
      by (simp only: c0 Inl if_False sum.case)
    with ok show ?thesis by simp
  next
    case (Inr r)
    obtain b s1 ice1 where r: "r = (b, s1, ice1)" by (cases r)
    note pb = Inr [unfolded r]
    note f = probe_book_fields [OF pb]
    show ?thesis
    proof (cases "hm_fmvn hm < moveStartOpt s1 \<and> b \<noteq> None")
      case True
      then obtain bm where bm: "b = Some bm" by auto
      have pb': "probe_book env self isCereEnd hm = Inr (Some bm, s1, ice1)"
        using pb bm by simp
      have c2: "hm_fmvn hm < moveStartOpt s1 \<and> Some bm \<noteq> None"
        using True bm by simp
      have "AnnotateHalfMove env self isCereEnd hm =
          Inr (WriteBookMove s1 (hm_side hm) (hm_fmvn hm) (hm_sanMove hm) bm, ice1)"
        unfolding AnnotateHalfMove_def Let_def
        by (simp only: c0 pb' c2 WriteNotation_book if_False if_True sum.case prod.case simp_thms)
      with ok True f show ?thesis by (auto simp: WriteBookMove_options)
    next
      case c2: False
      have ps: "get_posScore env s1 hm = Inr (None, 0, 0, s1)"
        using ev f(1) by (simp add: get_posScore_none)
      have "AnnotateHalfMove env self isCereEnd hm = Inl (TypeError, s1)"
        unfolding AnnotateHalfMove_def Let_def
        by (simp only: c0 c2 pb ps get_engine_best_none if_False sum.case prod.case)
      with ok show ?thesis by simp
    qed
  qed
qed

lemma AnnotateMoves_eval_none_completes:
  "evalOpt self \<noteq> ''static'' \<Longrightarrow> evalOpt self \<noteq> ''search'' \<Longrightarrow>
   AnnotateMoves env self isCereEnd hms = Inr s \<Longrightarrow>
   list_all (\<lambda>hm. hm_fmvn hm < moveStartOpt self) hms"
proof (induction hms arbitrary: self isCereEnd)
  case Nil
  show ?case by simp
next
  case (Cons hm rest)
  from Cons.prems(3) obtain s1 ice1 where
    step: "AnnotateHalfMove env self isCereEnd hm = Inr (s1, ice1)" and
    more: "AnnotateMoves env s1 ice1 rest = Inr s"
    by (auto split: sum.splits)
  note h = AnnotateHalfMove_eval_none_completes [OF Cons.prems(1,2) step]
  from h Cons.prems(1,2) have "evalOpt s1 \<noteq> ''static''" "evalOpt s1 \<noteq> ''search''" by simp_all
  from Cons.IH [OF this more] h show ?case by simp
qed

lemma AnnotateMoves_eval_none_options:
  "evalOpt self \<noteq> ''static'' \<Longrightarrow> evalOpt self \<noteq> ''search'' \<Longrightarrow>
   AnnotateMoves env self isCereEnd hms = Inr s \<Longrightarrow>
   evalOpt s = evalOpt self \<and> moveStartOpt s = moveStartOpt self"
proof (induction hms arbitrary: self isCereEnd)
  case Nil
  then show ?case by simp
next
  case (Cons hm rest)
  from Cons.prems(3) obtain s1 ice1 where
    step: "AnnotateHalfMove env self isCereEnd hm = Inr (s1, ice1)" and
    more: "AnnotateMoves env s1 ice1 rest = Inr s"
    by (auto split: sum.splits)
  note h = AnnotateHalfMove_eval_none_completes [OF Cons.prems(1,2) step]
  from h Cons.prems(1,2) have "evalOpt s1 \<noteq> ''static''" "evalOpt s1 \<noteq> ''search''" by simp_all
  from Cons.IH [OF this more] h show ?case by simp
qed

lemma AnnotateGame_eval_none_completes:
  assumes ev: "evalOpt self \<noteq> ''static''" "evalOpt self \<noteq> ''search''"
    and ok: "AnnotateGame env self g = Inr s"
  shows "list_all (\<lambda>hm. hm_fmvn hm < moveStartOpt self) (mainline g)
         \<and> evalOpt s = evalOpt self \<and> moveStartOpt s = moveStartOpt self"
proof -
  define s2 where "s2 = fwrite (fwrite (self\<lparr>writeCnt := 0\<rparr>)
       (map (\<lambda>kv. Text (''['' @ fst kv @ '' '' @ [CHR 0x22] @ snd kv @ [CHR 0x22]
                         @ '']\<newline>'')) (headers g)))
       [Text (''[Annotator '' @ [CHR 0x22] @ engIdName self @ [CHR 0x22]
              @ '']\<newline>\<newline>'')]"
  have s2: "evalOpt s2 = evalOpt self" "moveStartOpt s2 = moveStartOpt self"
    by (simp_all add: s2_def fwrite_def)
  from ok ev obtain res s4 where
    mv: "AnnotateMoves env s2 False (mainline g) = Inr s4" and s: "s = fwrite s4 [Text (res @ ''\<newline>\<newline>'')]"
    unfolding AnnotateGame_def Let_def s2_def [symmetric]
    by (auto split: option.splits sum.splits)
  from s2 ev have ev2: "evalOpt s2 \<noteq> ''static''" "evalOpt s2 \<noteq> ''search''" by simp_all
  from AnnotateMoves_eval_none_completes [OF ev2 mv] AnnotateMoves_eval_none_options [OF ev2 mv]
    s2 s
  show ?thesis by (simp add: fwrite_def)
qed

lemma AnnotateGames_eval_none_completes:
  "evalOpt self \<noteq> ''static'' \<Longrightarrow> evalOpt self \<noteq> ''search'' \<Longrightarrow>
   AnnotateGames env self games = Inr s \<Longrightarrow>
   list_all (\<lambda>g. list_all (\<lambda>hm. hm_fmvn hm < moveStartOpt self) (mainline g)) games"
proof (induction games arbitrary: self)
  case Nil
  show ?case by simp
next
  case (Cons g gs)
  from Cons.prems(3) obtain s1 where
    g: "AnnotateGame env self g = Inr s1" and more: "AnnotateGames env s1 gs = Inr s"
    by (auto split: sum.splits)
  note h = AnnotateGame_eval_none_completes [OF Cons.prems(1,2) g]
  from h Cons.prems(1,2) have "evalOpt s1 \<noteq> ''static''" "evalOpt s1 \<noteq> ''search''" by simp_all
  from Cons.IH [OF this more] h show ?case by simp
qed

text \<open>
  The same bound for a whole run: it completes only on games all of whose half-moves lie
  below \<open>moveStart\<close>.
\<close>

lemma AnnotatePgn_eval_none_completes:
  assumes "evalOpt self \<noteq> ''static''" "evalOpt self \<noteq> ''search''"
    and "AnnotatePgn env self games = Inr s"
  shows "list_all (\<lambda>g. list_all (\<lambda>hm. hm_fmvn hm < moveStartOpt self) (mainline g)) games"
proof -
  define s0 where "s0 = (if bookOpt self = ''cerebellum'' \<and> \<not> py_in ''Brainfish'' (engIdName self)
               then self\<lparr>bookOpt := ''none''\<rparr> else self)"
  have f: "evalOpt s0 = evalOpt self" "moveStartOpt s0 = moveStartOpt self"
    by (simp_all add: s0_def)
  from assms(3) have run: "AnnotateGames env s0 games = Inr s"
    by (simp add: AnnotatePgn_def s0_def Let_def)
  from assms(1,2) f have "evalOpt s0 \<noteq> ''static''" "evalOpt s0 \<noteq> ''search''" by simp_all
  from AnnotateGames_eval_none_completes [OF this run] f show ?thesis by simp
qed

lemma example_game_run:
  "map_sum fst outfile
     (AnnotatePgn book_environment (example_analyze\<lparr>evalOpt := ''none''\<rparr>) [example_game])
   = Inr [Text (''[Event '' @ [CHR 0x22] @ ''?'' @ [CHR 0x22] @ '']\<newline>''),
          Text (''[Result '' @ [CHR 0x22] @ ''*'' @ [CHR 0x22] @ '']\<newline>''),
          Text (''[Annotator '' @ [CHR 0x22] @ ''Brainfish 091016 64'' @ [CHR 0x22]
                @ '']\<newline>\<newline>''),
          Text ''1. e4 (1. d4 {cerebellum}) '',
          Text ''*\<newline>\<newline>'']"
  by code_simp

text \<open>
  C9, as stated, fails in its opening clause: \<open>AnnotatePgn\<close> can complete with the eval
  option \<open>none\<close>. With the cerebellum book configured, a game whose only move is below
  \<open>moveStart\<close> and has a book move is written by step (2) and the run completes; so does
  the run on a file without games.
\<close>

theorem AnnotatePgn_eval_none_counterexample:
  "evalOpt (example_analyze\<lparr>evalOpt := ''none''\<rparr>) = ''none''
   \<and> main_checks ''cerebellum'' ''none'' ''analyze'' 2000 True PGN_FILE = Some ''cerebellum''
   \<and> map_sum fst outfile
       (AnnotatePgn book_environment (example_analyze\<lparr>evalOpt := ''none''\<rparr>) [example_game])
     = Inr [Text (''[Event '' @ [CHR 0x22] @ ''?'' @ [CHR 0x22] @ '']\<newline>''),
            Text (''[Result '' @ [CHR 0x22] @ ''*'' @ [CHR 0x22] @ '']\<newline>''),
            Text (''[Annotator '' @ [CHR 0x22] @ ''Brainfish 091016 64'' @ [CHR 0x22]
                  @ '']\<newline>\<newline>''),
            Text ''1. e4 (1. d4 {cerebellum}) '',
            Text ''*\<newline>\<newline>'']
   \<and> AnnotatePgn stub_environment (example_analyze\<lparr>evalOpt := ''none''\<rparr>) [] =
       Inr (example_analyze\<lparr>evalOpt := ''none''\<rparr>)"
  using example_game_run
  by (simp add: main_checks_def AnnotatePgn_def example_analyze_def)

text \<open>
  C9, amended. With an eval option other than \<open>static\<close> and \<open>search\<close> (such as
  \<open>none\<close>, which the startup checks accept for a PGN file when the cerebellum book is
  configured and its file exists), \<open>AnnotatePgn\<close> completes only if every half-move of
  every game has a full-move number below \<open>moveStart\<close>; and a half-move that reaches the
  search decision (its book probe, if any, returned, and it was short-circuited neither by
  step (0) nor by a book move below \<open>moveStart\<close>) has no \<open>posScore\<close>, so that
  \<open>abs(posScore)\<close> raises \<open>TypeError\<close> before anything is written for it.
\<close>

theorem AnnotatePgn_eval_none:
  assumes "evalOpt self \<noteq> ''static''" and "evalOpt self \<noteq> ''search''"
  shows "(AnnotatePgn env self games = Inr s \<longrightarrow>
            list_all (\<lambda>g. list_all (\<lambda>hm. hm_fmvn hm < moveStartOpt self) (mainline g)) games)
   \<and> ((bookOpt self = ''cerebellum'' \<and> \<not> isCereEnd \<longrightarrow>
           GetCerebellumBookMove env (hm_fenBefore hm) = Inr bookMove)
        \<and> (\<not> (bookOpt self = ''cerebellum'' \<and> \<not> isCereEnd) \<longrightarrow> bookMove = None)
        \<and> (hm_fmvn hm \<ge> moveStartOpt self
             \<or> (bookOpt self = ''cerebellum'' \<and> bookMove = None)) \<longrightarrow>
        AnnotateHalfMove env self isCereEnd hm =
          Inl (TypeError,
               if bookOpt self = ''cerebellum'' \<and> \<not> isCereEnd
               then self\<lparr>sessions := sessions self @ [BookProbe (hm_fenBefore hm)]\<rparr>
               else self))
   \<and> main_checks ''cerebellum'' ''none'' ''analyze'' moveTimeOption True PGN_FILE
       = Some ''cerebellum''"
proof (intro conjI impI)
  assume "AnnotatePgn env self games = Inr s"
  with assms show
    "list_all (\<lambda>g. list_all (\<lambda>hm. hm_fmvn hm < moveStartOpt self) (mainline g)) games"
    by (rule AnnotatePgn_eval_none_completes)
next
  assume h: "(bookOpt self = ''cerebellum'' \<and> \<not> isCereEnd \<longrightarrow>
           GetCerebellumBookMove env (hm_fenBefore hm) = Inr bookMove)
        \<and> (\<not> (bookOpt self = ''cerebellum'' \<and> \<not> isCereEnd) \<longrightarrow> bookMove = None)
        \<and> (hm_fmvn hm \<ge> moveStartOpt self
             \<or> (bookOpt self = ''cerebellum'' \<and> bookMove = None))"
  then have p: "bookOpt self = ''cerebellum'' \<and> \<not> isCereEnd \<longrightarrow>
           GetCerebellumBookMove env (hm_fenBefore hm) = Inr bookMove"
    and n: "\<not> (bookOpt self = ''cerebellum'' \<and> \<not> isCereEnd) \<longrightarrow> bookMove = None"
    and r: "hm_fmvn hm \<ge> moveStartOpt self
             \<or> (bookOpt self = ''cerebellum'' \<and> bookMove = None)"
    by blast+
  from AnnotateHalfMove_eval_none_raises [OF assms p n r]
  show "AnnotateHalfMove env self isCereEnd hm =
          Inl (TypeError,
               if bookOpt self = ''cerebellum'' \<and> \<not> isCereEnd
               then self\<lparr>sessions := sessions self @ [BookProbe (hm_fenBefore hm)]\<rparr>
               else self)" .
next
  show "main_checks ''cerebellum'' ''none'' ''analyze'' moveTimeOption True PGN_FILE
       = Some ''cerebellum''"
    by (simp add: main_checks_def)
qed

theorem AnnotatePgn_eval_none_witness:
  "evalOpt (example_analyze\<lparr>evalOpt := ''none''\<rparr>) \<noteq> ''static''
   \<and> evalOpt (example_analyze\<lparr>evalOpt := ''none''\<rparr>) \<noteq> ''search''
   \<and> (\<exists>s. AnnotatePgn book_environment (example_analyze\<lparr>evalOpt := ''none''\<rparr>)
             [example_game] = Inr s)
   \<and> list_all (\<lambda>g. list_all (\<lambda>hm. hm_fmvn hm < 8) (mainline g)) [example_game]
   \<and> GetCerebellumBookMove stub_environment (hm_fenBefore example_halfmove) = Inr None
   \<and> map_sum (\<lambda>e. (fst e, sessions (snd e), outfile (snd e))) (\<lambda>r. ())
        (AnnotateHalfMove stub_environment (example_analyze\<lparr>evalOpt := ''none''\<rparr>) False
           (example_halfmove\<lparr>hm_fmvn := 9\<rparr>))
       = Inl (TypeError, [BookProbe (hm_fenBefore example_halfmove)], [])"
proof -
  let ?self = "example_analyze\<lparr>evalOpt := ''none''\<rparr>"
  let ?hm = "example_halfmove\<lparr>hm_fmvn := 9\<rparr>"
  have ev: "evalOpt ?self \<noteq> ''static''" "evalOpt ?self \<noteq> ''search''" by simp_all
  from example_game_run obtain s where
    run: "AnnotatePgn book_environment ?self [example_game] = Inr s"
    by (cases "AnnotatePgn book_environment ?self [example_game]") auto
  have book: "GetCerebellumBookMove stub_environment (hm_fenBefore example_halfmove) = Inr None"
    by (simp add: stub_environment_def)
  note t1 = AnnotatePgn_eval_none [OF ev, where env = book_environment
      and games = "[example_game]" and s = s]
  note t2 = AnnotatePgn_eval_none [OF ev, where env = stub_environment and hm = ?hm
      and isCereEnd = False and bookMove = None]
  from t1 run have 1:
    "list_all (\<lambda>g. list_all (\<lambda>hm. hm_fmvn hm < 8) (mainline g)) [example_game]"
    by (simp add: example_analyze_def)
  from t2 book have 2: "map_sum (\<lambda>e. (fst e, sessions (snd e), outfile (snd e))) (\<lambda>r. ())
        (AnnotateHalfMove stub_environment ?self False ?hm)
       = Inl (TypeError, [BookProbe (hm_fenBefore example_halfmove)], [])"
    by (simp add: example_analyze_def example_halfmove_def)
  from ev run 1 book 2 show ?thesis by blast
qed

end
